theory Spec2Isabelle
  imports Main "HOL-Library.Word" "HOL-Library.Sublist"
begin

unbundle bit_operations_syntax

section \<open>Python values used by \<open>scripts/export_all_cookies.py\<close>\<close>

text \<open>
  A Python \<open>bytes\<close> object is a list of 8-bit words, a Python \<open>str\<close> is the list
  of its code points. Exceptions are values: a computation that may raise returns
  \<open>exn + 'a\<close>, with \<open>Inl\<close> for the exception.
\<close>

type_synonym byte = "8 word"
type_synonym bytes = "byte list"
type_synonym pystr = "nat list"

datatype exn = ValueError | IndexError | TypeError | OverflowError | StructError

definition str_of :: "string \<Rightarrow> pystr" where
  "str_of s = map of_char s"

definition bytes_of :: "string \<Rightarrow> bytes" where
  "bytes_of s = map of_char s"

subsection \<open>Slicing and indexing\<close>

text \<open>
  \<open>xs[lo:hi]\<close>: an index below zero counts from the end, every index is clipped to
  \<open>0..len(xs)\<close>, and a stop at or before the start gives the empty sequence. A slice
  never raises.
\<close>

definition clip_index :: "nat \<Rightarrow> int \<Rightarrow> nat" where
  "clip_index n i = (if i < 0 then nat (int n + i) else min n (nat i))"

definition py_slice :: "'a list \<Rightarrow> int option \<Rightarrow> int option \<Rightarrow> 'a list" where
  "py_slice xs lo hi =
     (let n = length xs;
          a = (case lo of None \<Rightarrow> 0 | Some i \<Rightarrow> clip_index n i);
          b = (case hi of None \<Rightarrow> n | Some j \<Rightarrow> clip_index n j)
      in take (b - a) (drop a xs))"

text \<open>\<open>xs[i]\<close> raises IndexError outside \<open>-len(xs) .. len(xs) - 1\<close>.\<close>

definition py_index :: "'a list \<Rightarrow> int \<Rightarrow> exn + 'a" where
  "py_index xs i =
     (if 0 \<le> i \<and> i < int (length xs) then Inr (xs ! nat i)
      else if i < 0 \<and> - int (length xs) \<le> i then Inr (xs ! nat (int (length xs) + i))
      else Inl IndexError)"

subsection \<open>\<open>bytes.decode('utf-8', errors='replace')\<close>\<close>

text \<open>
  The decoder of CPython: a well-formed sequence gives its code point; an ill-formed
  one gives one U+FFFD for its longest prefix that starts a well-formed sequence (one
  byte when there is none), and decoding goes on right after that prefix. It never
  raises.
\<close>

definition is_cont :: "byte \<Rightarrow> bool" where
  "is_cont b = (0x80 \<le> b \<and> b \<le> 0xBF)"

definition second_ok :: "byte \<Rightarrow> byte \<Rightarrow> bool" where
  "second_ok b0 b1 =
     (if b0 = 0xE0 then 0xA0 \<le> b1 \<and> b1 \<le> 0xBF
      else if b0 = 0xED then 0x80 \<le> b1 \<and> b1 \<le> 0x9F
      else if b0 = 0xF0 then 0x90 \<le> b1 \<and> b1 \<le> 0xBF
      else if b0 = 0xF4 then 0x80 \<le> b1 \<and> b1 \<le> 0x8F
      else is_cont b1)"

definition low6 :: "byte \<Rightarrow> nat" where
  "low6 b = unat (b AND 0x3F)"

definition replacement :: nat where
  "replacement = 0xFFFD"

fun utf8_replace :: "bytes \<Rightarrow> pystr" where
  "utf8_replace [] = []"
| "utf8_replace (b0 # bs) =
     (if b0 < 0x80 then unat b0 # utf8_replace bs
      else if b0 < 0xC2 \<or> 0xF4 < b0 then replacement # utf8_replace bs
      else if b0 < 0xE0 then
        (case bs of
           [] \<Rightarrow> [replacement]
         | b1 # r1 \<Rightarrow>
             if is_cont b1 then (unat (b0 AND 0x1F) * 64 + low6 b1) # utf8_replace r1
             else replacement # utf8_replace bs)
      else if b0 < 0xF0 then
        (case bs of
           [] \<Rightarrow> [replacement]
         | b1 # r1 \<Rightarrow>
             if \<not> second_ok b0 b1 then replacement # utf8_replace bs
             else (case r1 of
                [] \<Rightarrow> [replacement]
              | b2 # r2 \<Rightarrow>
                  if is_cont b2
                  then (unat (b0 AND 0x0F) * 4096 + low6 b1 * 64 + low6 b2) # utf8_replace r2
                  else replacement # utf8_replace r1))
      else
        (case bs of
           [] \<Rightarrow> [replacement]
         | b1 # r1 \<Rightarrow>
             if \<not> second_ok b0 b1 then replacement # utf8_replace bs
             else (case r1 of
                [] \<Rightarrow> [replacement]
              | b2 # r2 \<Rightarrow>
                  if \<not> is_cont b2 then replacement # utf8_replace r1
                  else (case r2 of
                     [] \<Rightarrow> [replacement]
                   | b3 # r3 \<Rightarrow>
                       if is_cont b3
                       then (unat (b0 AND 0x07) * 262144 + low6 b1 * 4096 + low6 b2 * 64
                               + low6 b3) # utf8_replace r3
                       else replacement # utf8_replace r2))))"

section \<open>The cipher envelope decoder\<close>

text \<open>
  \<open>SYSTEM = platform.system()\<close> is fixed when the module is loaded; the functions that
  read it take it as an argument.
\<close>

datatype system = Darwin | Windows | Linux | Other

text \<open>
  The ciphers come from pycryptodome and the Windows data-protection call from
  pywin32. They are arguments of the model:
  \<^item> \<open>aes_cbc key iv data\<close> is what \<open>AES.new(key, AES.MODE_CBC, iv).decrypt(data)\<close>
    returns when it returns;
  \<^item> \<open>gcm_tag key nonce data\<close> is the 16-byte tag AES-GCM computes for the ciphertext
    \<open>data\<close>, and \<open>gcm_plain key nonce data\<close> the plaintext of \<open>data\<close>;
  \<^item> \<open>unprotect blob\<close> is the text
    \<open>win32crypt.CryptUnprotectData(blob, None, None, None, 0)[1].decode('utf-8')\<close>,
    or \<open>None\<close> when the import, the call or the strict decoding raises.
\<close>

record cipher_lib =
  aes_cbc :: "bytes \<Rightarrow> bytes \<Rightarrow> bytes \<Rightarrow> bytes"
  gcm_tag :: "bytes \<Rightarrow> bytes \<Rightarrow> bytes \<Rightarrow> bytes"
  gcm_plain :: "bytes \<Rightarrow> bytes \<Rightarrow> bytes \<Rightarrow> bytes"
  unprotect :: "bytes \<Rightarrow> pystr option"

text \<open>\<open>AES.new\<close> raises ValueError unless the key has 16, 24 or 32 bytes.\<close>

definition key_ok :: "bytes \<Rightarrow> bool" where
  "key_ok key = (length key = 16 \<or> length key = 24 \<or> length key = 32)"

text \<open>
  CBC wants an initialization vector of one block, and its \<open>decrypt\<close> raises ValueError
  ("Data must be padded to 16 byte boundary in CBC mode") on any other length of data.
\<close>

definition cbc_decrypt :: "cipher_lib \<Rightarrow> bytes \<Rightarrow> bytes \<Rightarrow> bytes \<Rightarrow> exn + bytes" where
  "cbc_decrypt L key iv data =
     (if \<not> key_ok key \<or> length iv \<noteq> 16 then Inl ValueError
      else if length data mod 16 \<noteq> 0 then Inl ValueError
      else Inr (aes_cbc L key iv data))"

text \<open>
  GCM refuses an empty nonce; \<open>decrypt_and_verify\<close> raises ValueError ("MAC check
  failed") unless the tag it is given is the tag of the ciphertext.
\<close>

definition gcm_decrypt_and_verify ::
    "cipher_lib \<Rightarrow> bytes \<Rightarrow> bytes \<Rightarrow> bytes \<Rightarrow> bytes \<Rightarrow> exn + bytes" where
  "gcm_decrypt_and_verify L key nonce ciphertext tag =
     (if \<not> key_ok key \<or> nonce = [] then Inl ValueError
      else if tag \<noteq> gcm_tag L key nonce ciphertext then Inl ValueError
      else Inr (gcm_plain L key nonce ciphertext))"

subsection \<open>\<open>decrypt_cookie_value\<close>\<close>

text \<open>The \<open>v10\<close> branch after the decryption: padding, prefix, text.\<close>

definition v10_finish :: "bytes \<Rightarrow> exn + pystr" where
  "v10_finish decrypted =
     (case py_index decrypted (- 1) of
        Inl e \<Rightarrow> Inl e
      | Inr padding_len \<Rightarrow>
          (let d1 = (if unat padding_len < 16
                     then py_slice decrypted None (Some (- int (unat padding_len)))
                     else decrypted);
               d2 = (if 32 < length d1 then py_slice d1 (Some 32) None else d1)
           in Inr (utf8_replace d2)))"

definition decrypt_v10 :: "cipher_lib \<Rightarrow> bytes \<Rightarrow> bytes \<Rightarrow> exn + pystr" where
  "decrypt_v10 L encrypted_value key =
     (let iv = replicate 16 (0x20 :: byte) in
      case cbc_decrypt L key iv (py_slice encrypted_value (Some 3) None) of
        Inl e \<Rightarrow> Inl e
      | Inr decrypted \<Rightarrow> v10_finish decrypted)"

definition decrypt_v11 :: "cipher_lib \<Rightarrow> bytes \<Rightarrow> bytes \<Rightarrow> exn + pystr" where
  "decrypt_v11 L encrypted_value key =
     (let nonce = py_slice encrypted_value (Some 3) (Some 15);
          ciphertext = py_slice encrypted_value (Some 15) (Some (- 16));
          tag = py_slice encrypted_value (Some (- 16)) None
      in case gcm_decrypt_and_verify L key nonce ciphertext tag of
           Inl e \<Rightarrow> Inl e
         | Inr plain \<Rightarrow> Inr (utf8_replace plain))"

text \<open>
  No marker: on Windows the data-protection call is tried and every failure of it is
  swallowed; otherwise, and after such a failure, the bytes are taken as the text.
\<close>

definition decrypt_plain :: "cipher_lib \<Rightarrow> system \<Rightarrow> bytes \<Rightarrow> exn + pystr" where
  "decrypt_plain L sys encrypted_value =
     (case (if sys = Windows then unprotect L encrypted_value else None) of
        Some s \<Rightarrow> Inr s
      | None \<Rightarrow> Inr (utf8_replace encrypted_value))"

text \<open>The body of the \<open>try\<close> statement.\<close>

definition decrypt_body :: "cipher_lib \<Rightarrow> system \<Rightarrow> bytes \<Rightarrow> bytes \<Rightarrow> exn + pystr" where
  "decrypt_body L sys encrypted_value key =
     (if py_slice encrypted_value None (Some 3) = bytes_of ''v10''
      then decrypt_v10 L encrypted_value key
      else if py_slice encrypted_value None (Some 3) = bytes_of ''v11''
      then decrypt_v11 L encrypted_value key
      else decrypt_plain L sys encrypted_value)"

text \<open>
  The blob is a column of a database row and the key is what \<open>get_encryption_key\<close>
  returned: either can be \<open>None\<close>, which Python's \<open>not\<close> treats as the empty bytes.
  \<open>except Exception\<close> turns every exception of the body into the empty text.
\<close>

definition decrypt_cookie_value ::
    "cipher_lib \<Rightarrow> system \<Rightarrow> bytes option \<Rightarrow> bytes option \<Rightarrow> exn + pystr" where
  "decrypt_cookie_value L sys encrypted_value key =
     (case (encrypted_value, key) of
        (Some ev, Some k) \<Rightarrow>
          if ev = [] \<or> k = [] then Inr []
          else (case decrypt_body L sys ev k of
                  Inl e \<Rightarrow> Inr []
                | Inr s \<Rightarrow> Inr s)
      | _ \<Rightarrow> Inr [])"

text \<open>
  The \<open>v10\<close> post-processing as the specification words it, for comparison: the last
  byte is the padding length, that many bytes are removed from the end when it is
  below 16, the first 32 bytes are dropped when more than 32 are left, and the rest is
  decoded.
\<close>

definition v10_words :: "bytes \<Rightarrow> pystr" where
  "v10_words plain =
     (let n = unat (last plain);
          p1 = (if n < 16 then take (length plain - n) plain else plain);
          p2 = (if 32 < length p1 then drop 32 p1 else p1)
      in utf8_replace p2)"

section \<open>The cookie record\<close>

text \<open>
  Every exporter builds dictionaries with the same nine keys. The key \<open>value\<close> is the
  field \<open>val\<close> here. \<open>samesite\<close> is a database column for two of the stores and can be
  \<open>None\<close> there.
\<close>

record cookie =
  browser :: pystr
  domain :: pystr
  name :: pystr
  val :: pystr
  path :: pystr
  expires :: pystr
  secure :: bool
  httponly :: bool
  samesite :: "int option"

section \<open>Timestamps\<close>

text \<open>
  What the platform decides is an argument of the model:
  \<^item> \<open>year_text y\<close> is what \<open>strftime('%Y')\<close> prints for a year below 1000 (the C
    library pads it with zeros or does not);
  \<^item> \<open>local_text t\<close> is
    \<open>datetime.fromtimestamp(t).strftime('%Y-%m-%d %H:%M:%S')\<close>, which reads the time
    zone of the machine, or \<open>None\<close> when that raises.
\<close>

record clock_lib =
  year_text :: "nat \<Rightarrow> pystr"
  local_text :: "int \<Rightarrow> pystr option"

subsection \<open>Doubles\<close>

text \<open>The fields of a double, and \<open>x > 0\<close> on doubles: false for a NaN and for both zeros.\<close>

definition float_negative :: "64 word \<Rightarrow> bool" where
  "float_negative w = bit w 63"

definition float_exponent :: "64 word \<Rightarrow> nat" where
  "float_exponent w = unat (drop_bit 52 w AND 0x7FF)"

definition float_fraction :: "64 word \<Rightarrow> nat" where
  "float_fraction w = unat (w AND 0xFFFFFFFFFFFFF)"

definition float_is_zero :: "64 word \<Rightarrow> bool" where
  "float_is_zero w = (float_exponent w = 0 \<and> float_fraction w = 0)"

definition float_is_nan :: "64 word \<Rightarrow> bool" where
  "float_is_nan w = (float_exponent w = 2047 \<and> float_fraction w \<noteq> 0)"

definition float_is_inf :: "64 word \<Rightarrow> bool" where
  "float_is_inf w = (float_exponent w = 2047 \<and> float_fraction w = 0)"

definition float_gt_zero :: "64 word \<Rightarrow> bool" where
  "float_gt_zero w = (\<not> float_negative w \<and> \<not> float_is_nan w \<and> \<not> float_is_zero w)"

subsection \<open>The calendar of \<open>datetime\<close>\<close>

text \<open>
  A date is its ordinal: day 1 is 0001-01-01, the last day, 9999-12-31, is 3652059.
  \<open>ymd2ord\<close> and \<open>ord2ymd\<close> are the functions of the same names in the module.
\<close>

definition is_leap :: "nat \<Rightarrow> bool" where
  "is_leap year = (year mod 4 = 0 \<and> (year mod 100 \<noteq> 0 \<or> year mod 400 = 0))"

definition days_in_month :: "nat list" where
  "days_in_month = [0, 31, 28, 31, 30, 31, 30, 31, 31, 30, 31, 30, 31]"

definition days_before_month :: "nat list" where
  "days_before_month = [0, 0, 31, 59, 90, 120, 151, 181, 212, 243, 273, 304, 334]"

definition days_before_year :: "nat \<Rightarrow> nat" where
  "days_before_year year =
     (let y = year - 1 in y * 365 + y div 4 - y div 100 + y div 400)"

definition ymd2ord :: "nat \<Rightarrow> nat \<Rightarrow> nat \<Rightarrow> nat" where
  "ymd2ord year month day =
     days_before_year year + days_before_month ! month
       + (if 2 < month \<and> is_leap year then 1 else 0) + day"

definition max_ordinal :: nat where
  "max_ordinal = 3652059"

definition ord2ymd :: "nat \<Rightarrow> nat \<times> nat \<times> nat" where
  "ord2ymd ordinal =
     (let n = ordinal - 1;
          n400 = n div 146097; n = n mod 146097;
          n100 = n div 36524; n = n mod 36524;
          n4 = n div 1461; n = n mod 1461;
          n1 = n div 365; n = n mod 365;
          year = n400 * 400 + 1 + n100 * 100 + n4 * 4 + n1
      in if n1 = 4 \<or> n100 = 4 then (year - 1, 12, 31)
         else
           (let leapyear = (n1 = 3 \<and> (n4 \<noteq> 24 \<or> n100 = 3));
                month = (n + 50) div 32;
                preceding = days_before_month ! month
                              + (if 2 < month \<and> leapyear then 1 else 0)
            in if n < preceding
               then (let month = month - 1;
                         preceding = preceding
                            - (days_in_month ! month + (if month = 2 \<and> leapyear then 1 else 0))
                     in (year, month, n - preceding + 1))
               else (year, month, n - preceding + 1)))"

subsection \<open>\<open>timedelta\<close> and \<open>datetime + timedelta\<close>\<close>

text \<open>
  A \<open>timedelta\<close> is its whole number of microseconds. The constructor raises
  OverflowError when the days are beyond 999999999 either way.
\<close>

definition us_per_day :: int where
  "us_per_day = 86400000000"

definition timedelta_us :: "int \<Rightarrow> exn + int" where
  "timedelta_us n =
     (if 999999999 < \<bar>n div us_per_day\<bar> then Inl OverflowError else Inr n)"

text \<open>
  \<open>timedelta(seconds=x)\<close> for a double \<open>x > 0\<close>, given by its bits. The whole part of
  \<open>x\<close> is taken exactly. The fraction is multiplied by \<open>1e6\<close> in double arithmetic (53
  bits, ties to even), the whole part of that product is added, and what is left is
  rounded to the nearest microsecond, a half going to the even total. Infinity raises
  OverflowError.
\<close>

fun bit_length :: "nat \<Rightarrow> nat" where
  "bit_length n = (if n = 0 then 0 else Suc (bit_length (n div 2)))"

definition round_to_53 :: "nat \<Rightarrow> nat" where
  "round_to_53 N =
     (if bit_length N \<le> 53 then N
      else (let s = bit_length N - 53;
                q = N div 2 ^ s;
                r = N mod 2 ^ s;
                q = (if 2 ^ (s - 1) < r \<or> (r = 2 ^ (s - 1) \<and> odd q) then q + 1 else q)
            in q * 2 ^ s))"

definition seconds_to_us :: "64 word \<Rightarrow> nat" where
  "seconds_to_us w =
     (let e = float_exponent w;
          m = (if e = 0 then float_fraction w else 2 ^ 52 + float_fraction w);
          e = (if e = 0 then 1 else e)
      in if 1075 \<le> e then m * 2 ^ (e - 1075) * 1000000
         else (let k = 1075 - e;
                   whole = (m div 2 ^ k) * 1000000;
                   r = m mod 2 ^ k
               in if r = 0 then whole
                  else (let N = round_to_53 (r * 1000000);
                            total = whole + N div 2 ^ k;
                            left = N mod 2 ^ k
                        in if 2 ^ k < 2 * left \<or> (2 * left = 2 ^ k \<and> odd total)
                           then total + 1 else total)))"

definition timedelta_seconds :: "64 word \<Rightarrow> exn + int" where
  "timedelta_seconds w =
     (if float_is_inf w then Inl OverflowError else timedelta_us (int (seconds_to_us w)))"

text \<open>
  \<open>datetime(year, month, day) + delta\<close>: the date and the time of day of the sum,
  OverflowError when the date leaves the years 1 to 9999.
\<close>

type_synonym datetime = "nat \<times> nat \<times> nat \<times> nat \<times> nat \<times> nat"

definition datetime_add :: "nat \<Rightarrow> nat \<Rightarrow> nat \<Rightarrow> int \<Rightarrow> exn + datetime" where
  "datetime_add year month day delta =
     (let ordinal = int (ymd2ord year month day) + delta div us_per_day;
          s = nat ((delta mod us_per_day) div 1000000)
      in if ordinal < 1 \<or> int max_ordinal < ordinal then Inl OverflowError
         else (case ord2ymd (nat ordinal) of
                 (y, m, d) \<Rightarrow> Inr (y, m, d, s div 3600, (s mod 3600) div 60, s mod 60)))"

text \<open>\<open>strftime('%Y-%m-%d %H:%M:%S')\<close>.\<close>

definition two_digits :: "nat \<Rightarrow> pystr" where
  "two_digits n = [48 + n div 10 mod 10, 48 + n mod 10]"

definition four_digits :: "nat \<Rightarrow> pystr" where
  "four_digits n = [48 + n div 1000 mod 10, 48 + n div 100 mod 10, 48 + n div 10 mod 10, 48 + n mod 10]"

definition strftime :: "clock_lib \<Rightarrow> datetime \<Rightarrow> pystr" where
  "strftime T dt =
     (case dt of
        (y, m, d, H, M, S) \<Rightarrow>
          (if y < 1000 then year_text T y else four_digits y)
            @ str_of ''-'' @ two_digits m @ str_of ''-'' @ two_digits d
            @ str_of '' '' @ two_digits H @ str_of '':'' @ two_digits M
            @ str_of '':'' @ two_digits S)"

text \<open>
  The form \<open>YYYY-MM-DD HH:MM:SS\<close>: nineteen characters, digits where the pattern has a
  letter, the pattern's own character elsewhere. \<open>mask\<close> writes \<open>9\<close> for every digit.
\<close>

definition mask :: "nat \<Rightarrow> nat" where
  "mask c = (if 48 \<le> c \<and> c \<le> 57 then 57 else c)"

definition iso_shape :: "pystr \<Rightarrow> bool" where
  "iso_shape s = (map mask s = str_of ''9999-99-99 99:99:99'')"

subsection \<open>\<open>chrome_timestamp_to_datetime\<close>\<close>

text \<open>
  The argument is the column \<open>expires_utc\<close>: an integer, or \<open>None\<close>, for which the
  comparison with 0 is false and \<open>timedelta\<close> raises TypeError. The bare \<open>except\<close>
  turns every exception into \<open>"Unknown"\<close>.
\<close>

definition chrome_timestamp_to_datetime :: "clock_lib \<Rightarrow> int option \<Rightarrow> pystr" where
  "chrome_timestamp_to_datetime T timestamp =
     (if timestamp = Some 0 then str_of ''Session''
      else case (case timestamp of
                   None \<Rightarrow> Inl TypeError
                 | Some n \<Rightarrow>
                     (case timedelta_us n of
                        Inl e \<Rightarrow> Inl e
                      | Inr delta \<Rightarrow> datetime_add 1601 1 1 delta)) of
             Inl e \<Rightarrow> str_of ''Unknown''
           | Inr dt \<Rightarrow> strftime T dt)"

subsection \<open>The expiry of the other two stores\<close>

text \<open>
  \<open>(datetime(2001,1,1) + timedelta(seconds=exp)).strftime(...)\<close> of the paged
  container, where nothing catches an exception.
\<close>

definition mac_epoch_text :: "clock_lib \<Rightarrow> 64 word \<Rightarrow> exn + pystr" where
  "mac_epoch_text T exp =
     (case timedelta_seconds exp of
        Inl e \<Rightarrow> Inl e
      | Inr delta \<Rightarrow>
          (case datetime_add 2001 1 1 delta of
             Inl e \<Rightarrow> Inl e
           | Inr dt \<Rightarrow> Inr (strftime T dt)))"

text \<open>
  \<open>datetime.fromtimestamp(expiry).strftime(...) if expiry else "Session"\<close> of the
  third store. Whatever the time zone, a time more than a day outside the years 1 to
  9999 raises.
\<close>

definition fromtimestamp_text :: "clock_lib \<Rightarrow> int \<Rightarrow> exn + pystr" where
  "fromtimestamp_text T t =
     (if t < - 62135683200 \<or> 253402387200 \<le> t then Inl OverflowError
      else case local_text T t of None \<Rightarrow> Inl OverflowError | Some s \<Rightarrow> Inr s)"

definition firefox_expiry :: "clock_lib \<Rightarrow> int option \<Rightarrow> exn + pystr" where
  "firefox_expiry T expiry =
     (case expiry of
        None \<Rightarrow> Inr (str_of ''Session'')
      | Some t \<Rightarrow> if t = 0 then Inr (str_of ''Session'') else fromtimestamp_text T t)"

section \<open>The paged binary container\<close>

subsection \<open>\<open>struct.unpack\<close> and \<open>bytes.find\<close>\<close>

text \<open>
  The little-endian number of some bytes: the first byte counts least.
  \<open>struct.unpack('<I', b)\<close> raises \<open>struct.error\<close> unless \<open>b\<close> has exactly four
  bytes; \<open>'<d'\<close> wants eight and gives the double, kept as its 64 bits.
\<close>

definition le_nat :: "bytes \<Rightarrow> nat" where
  "le_nat b = foldr (\<lambda>x n. unat x + 256 * n) b 0"

definition unpack_I :: "bytes \<Rightarrow> exn + nat" where
  "unpack_I b = (if length b = 4 then Inr (le_nat b) else Inl StructError)"

definition unpack_d :: "bytes \<Rightarrow> exn + 64 word" where
  "unpack_d b = (if length b = 8 then Inr (of_nat (le_nat b)) else Inl StructError)"

text \<open>
  \<open>d.find(b'\x00', start)\<close> for a start that is not negative: the first index from
  \<open>start\<close> on that holds the byte, or \<open>-1\<close>.
\<close>

fun find_from :: "bytes \<Rightarrow> byte \<Rightarrow> nat \<Rightarrow> int" where
  "find_from [] b k = - 1"
| "find_from (x # xs) b k = (if x = b then int k else find_from xs b (Suc k))"

definition py_find :: "bytes \<Rightarrow> byte \<Rightarrow> nat \<Rightarrow> int" where
  "py_find d b start = find_from (drop start d) b start"

subsection \<open>\<open>parse_safari_page\<close>\<close>

text \<open>The closure \<open>read_str\<close>, with the buffer \<open>d\<close> it captures as an argument.\<close>

definition read_str :: "bytes \<Rightarrow> nat \<Rightarrow> pystr" where
  "read_str d o' =
     (let end = py_find d 0 o'
      in utf8_replace (py_slice d (Some (int o')) (Some end)))"

text \<open>
  The expiry text of a record: \<open>datetime(2001,1,1) + timedelta(seconds=exp)\<close>, printed,
  for an expiry above zero, else the sentinel.
\<close>

definition safari_expiry :: "clock_lib \<Rightarrow> 64 word \<Rightarrow> exn + pystr" where
  "safari_expiry T exp =
     (if float_gt_zero exp then mac_epoch_text T exp else Inr (str_of ''Session''))"

text \<open>The body of the \<open>try\<close> statement of the loop, for the record at \<open>off\<close>.\<close>

definition parse_record :: "clock_lib \<Rightarrow> bytes \<Rightarrow> nat \<Rightarrow> exn + cookie" where
  "parse_record T data off =
     (let d = py_slice data (Some (int off)) None in
      case unpack_I (py_slice d (Some 8) (Some 12)) of Inl e \<Rightarrow> Inl e | Inr flags \<Rightarrow>
      case unpack_I (py_slice d (Some 16) (Some 20)) of Inl e \<Rightarrow> Inl e | Inr url_off \<Rightarrow>
      case unpack_I (py_slice d (Some 20) (Some 24)) of Inl e \<Rightarrow> Inl e | Inr name_off \<Rightarrow>
      case unpack_I (py_slice d (Some 24) (Some 28)) of Inl e \<Rightarrow> Inl e | Inr path_off \<Rightarrow>
      case unpack_I (py_slice d (Some 28) (Some 32)) of Inl e \<Rightarrow> Inl e | Inr val_off \<Rightarrow>
      case unpack_d (py_slice d (Some 40) (Some 48)) of Inl e \<Rightarrow> Inl e | Inr exp \<Rightarrow>
      case safari_expiry T exp of Inl e \<Rightarrow> Inl e | Inr exp_str \<Rightarrow>
        Inr \<lparr>browser = str_of ''Safari'',
             domain = read_str d url_off,
             name = read_str d name_off,
             val = read_str d val_off,
             path = read_str d path_off,
             expires = exp_str,
             secure = (flags AND 0x1 \<noteq> 0),
             httponly = (flags AND 0x4 \<noteq> 0),
             samesite = Some 0\<rparr>)"

text \<open>The loop over the offsets: a record that raises is skipped, the others are appended.\<close>

fun parse_records :: "clock_lib \<Rightarrow> bytes \<Rightarrow> nat list \<Rightarrow> cookie list \<Rightarrow> cookie list" where
  "parse_records T data [] cookies = cookies"
| "parse_records T data (off # offsets) cookies =
     (case parse_record T data off of
        Inl e \<Rightarrow> parse_records T data offsets cookies
      | Inr c \<Rightarrow> parse_records T data offsets (cookies @ [c]))"

text \<open>The offset table is a list comprehension: the first entry that raises ends it.\<close>

fun read_offsets :: "bytes \<Rightarrow> nat list \<Rightarrow> exn + nat list" where
  "read_offsets data [] = Inr []"
| "read_offsets data (i # is) =
     (case unpack_I (py_slice data (Some (int (8 + i * 4))) (Some (int (12 + i * 4)))) of
        Inl e \<Rightarrow> Inl e
      | Inr off \<Rightarrow>
          (case read_offsets data is of Inl e \<Rightarrow> Inl e | Inr offs \<Rightarrow> Inr (off # offs)))"

definition parse_safari_page :: "clock_lib \<Rightarrow> bytes \<Rightarrow> exn + cookie list" where
  "parse_safari_page T data =
     (if py_slice data None (Some 4) \<noteq> [0x00, 0x00, 0x01, 0x00] then Inr []
      else case unpack_I (py_slice data (Some 4) (Some 8)) of
             Inl e \<Rightarrow> Inl e
           | Inr num \<Rightarrow>
               (case read_offsets data [0..<num] of
                  Inl e \<Rightarrow> Inl e
                | Inr offsets \<Rightarrow> Inr (parse_records T data offsets [])))"

section \<open>The exporters and \<open>main\<close>\<close>

text \<open>
  What an exporter reads from the disk is an argument: the rows the query returned,
  or \<open>None\<close> when the file could not be copied or queried. A row is the tuple the
  loop unpacks.
\<close>

subsection \<open>\<open>export_chromium_cookies\<close>\<close>

text \<open>
  \<open>host, name, enc_value, path, expires, secure, httponly, samesite = row\<close>, with the
  text columns as bytes (\<open>text_factory = bytes\<close>).
\<close>

type_synonym chromium_row =
  "bytes \<times> bytes \<times> bytes option \<times> bytes \<times> int option \<times> int \<times> int \<times> int option"

definition chromium_cookie ::
    "cipher_lib \<Rightarrow> clock_lib \<Rightarrow> system \<Rightarrow> pystr \<Rightarrow> bytes option \<Rightarrow> chromium_row
       \<Rightarrow> exn + cookie" where
  "chromium_cookie L T sys browser_name key row =
     (case row of
        (host, name', enc_value, path', expires', secure', httponly', samesite') \<Rightarrow>
          (case decrypt_cookie_value L sys enc_value key of
             Inl e \<Rightarrow> Inl e
           | Inr decrypted \<Rightarrow>
               Inr \<lparr>browser = browser_name,
                    domain = utf8_replace host,
                    name = utf8_replace name',
                    val = decrypted,
                    path = utf8_replace path',
                    expires = chrome_timestamp_to_datetime T expires',
                    secure = (secure' \<noteq> 0),
                    httponly = (httponly' \<noteq> 0),
                    samesite = (case samesite' of
                                  None \<Rightarrow> Some 0
                                | Some n \<Rightarrow> if n \<noteq> 0 then Some n else Some 0)\<rparr>))"

text \<open>The loop over the rows, inside a \<open>try\<close>: an exception ends it with what was appended.\<close>

fun chromium_rows ::
    "cipher_lib \<Rightarrow> clock_lib \<Rightarrow> system \<Rightarrow> pystr \<Rightarrow> bytes option \<Rightarrow> chromium_row list
       \<Rightarrow> cookie list \<Rightarrow> cookie list" where
  "chromium_rows L T sys browser_name key [] cookies = cookies"
| "chromium_rows L T sys browser_name key (row # rows) cookies =
     (case chromium_cookie L T sys browser_name key row of
        Inl e \<Rightarrow> cookies
      | Inr c \<Rightarrow> chromium_rows L T sys browser_name key rows (cookies @ [c]))"

text \<open>
  \<open>exists\<close> says whether the cookie file is there, \<open>key\<close> is what \<open>get_encryption_key\<close>
  returned.
\<close>

definition export_chromium_cookies ::
    "cipher_lib \<Rightarrow> clock_lib \<Rightarrow> system \<Rightarrow> pystr \<Rightarrow> bool \<Rightarrow> bytes option
       \<Rightarrow> chromium_row list option \<Rightarrow> cookie list" where
  "export_chromium_cookies L T sys browser_name exists key rows =
     (if \<not> exists then []
      else if key = None \<or> key = Some [] then []
      else case rows of
             None \<Rightarrow> []
           | Some rs \<Rightarrow> chromium_rows L T sys browser_name key rs [])"

subsection \<open>\<open>export_safari_cookies\<close>\<close>

text \<open>
  \<open>struct.unpack('>I', b)\<close>, and \<open>f.read(n)\<close> on what is left of the file: the next \<open>n\<close>
  bytes, fewer at the end of the file.
\<close>

definition unpack_I_be :: "bytes \<Rightarrow> exn + nat" where
  "unpack_I_be b = (if length b = 4 then Inr (le_nat (rev b)) else Inl StructError)"

fun read_sizes :: "bytes \<Rightarrow> nat \<Rightarrow> exn + (nat list \<times> bytes)" where
  "read_sizes rest 0 = Inr ([], rest)"
| "read_sizes rest (Suc n) =
     (case unpack_I_be (take 4 rest) of
        Inl e \<Rightarrow> Inl e
      | Inr page_size \<Rightarrow>
          (case read_sizes (drop 4 rest) n of
             Inl e \<Rightarrow> Inl e
           | Inr (sizes, rest') \<Rightarrow> Inr (page_size # sizes, rest')))"

text \<open>The loop over the pages: a page that raises ends it with what was read before.\<close>

fun read_pages :: "clock_lib \<Rightarrow> bytes \<Rightarrow> nat list \<Rightarrow> cookie list \<Rightarrow> cookie list" where
  "read_pages T rest [] cookies = cookies"
| "read_pages T rest (page_size # sizes) cookies =
     (case parse_safari_page T (take page_size rest) of
        Inl e \<Rightarrow> cookies
      | Inr cs \<Rightarrow> read_pages T (drop page_size rest) sizes (cookies @ cs))"

text \<open>\<open>file\<close> is the content of the copy, \<open>None\<close> when the copy failed.\<close>

definition export_safari_cookies :: "clock_lib \<Rightarrow> system \<Rightarrow> bytes option \<Rightarrow> cookie list" where
  "export_safari_cookies T sys file =
     (if sys \<noteq> Darwin then []
      else case file of
             None \<Rightarrow> []
           | Some content \<Rightarrow>
               if take 4 content \<noteq> bytes_of ''cook'' then []
               else (case unpack_I_be (take 4 (drop 4 content)) of
                       Inl e \<Rightarrow> []
                     | Inr num_pages \<Rightarrow>
                         (case read_sizes (drop 8 content) num_pages of
                            Inl e \<Rightarrow> []
                          | Inr (page_sizes, rest) \<Rightarrow> read_pages T rest page_sizes [])))"

subsection \<open>\<open>export_firefox_cookies\<close>\<close>

text \<open>
  \<open>host, name, value, path, expiry, secure, httponly, samesite = row\<close>, the text columns
  as text.
\<close>

type_synonym firefox_row =
  "pystr \<times> pystr \<times> pystr \<times> pystr \<times> int option \<times> int \<times> int \<times> int option"

definition firefox_cookie :: "clock_lib \<Rightarrow> firefox_row \<Rightarrow> exn + cookie" where
  "firefox_cookie T row =
     (case row of
        (host, name', value', path', expiry, secure', httponly', samesite') \<Rightarrow>
          (case firefox_expiry T expiry of
             Inl e \<Rightarrow> Inl e
           | Inr exp_str \<Rightarrow>
               Inr \<lparr>browser = str_of ''Firefox'', domain = host, name = name', val = value',
                    path = path', expires = exp_str, secure = (secure' \<noteq> 0),
                    httponly = (httponly' \<noteq> 0), samesite = samesite'\<rparr>))"

text \<open>
  The \<open>try\<close> of a profile holds the whole loop, and its \<open>except\<close> passes: a row that
  raises ends the profile with the rows before it.
\<close>

fun firefox_rows :: "clock_lib \<Rightarrow> firefox_row list \<Rightarrow> cookie list \<Rightarrow> cookie list" where
  "firefox_rows T [] cookies = cookies"
| "firefox_rows T (row # rows) cookies =
     (case firefox_cookie T row of
        Inl e \<Rightarrow> cookies
      | Inr c \<Rightarrow> firefox_rows T rows (cookies @ [c]))"

text \<open>
  One entry for each profile directory: its rows, or \<open>None\<close> when it has no cookie
  file or the copy or the query failed.
\<close>

fun export_firefox_cookies ::
    "clock_lib \<Rightarrow> firefox_row list option list \<Rightarrow> cookie list \<Rightarrow> cookie list" where
  "export_firefox_cookies T [] cookies = cookies"
| "export_firefox_cookies T (None # profiles) cookies = export_firefox_cookies T profiles cookies"
| "export_firefox_cookies T (Some rows # profiles) cookies =
     export_firefox_cookies T profiles (firefox_rows T rows cookies)"

subsection \<open>\<open>main\<close>: the list that is written\<close>

text \<open>\<open>if cookies: all_cookies.extend(cookies)\<close>.\<close>

definition extend_if :: "cookie list \<Rightarrow> cookie list \<Rightarrow> cookie list" where
  "extend_if all_cookies cookies = (if cookies \<noteq> [] then all_cookies @ cookies else all_cookies)"

text \<open>
  The loop over the discovered browsers; \<open>exported\<close> holds what
  \<open>export_chromium_cookies\<close> returned for each, in the order of discovery.
\<close>

fun collect_chromium :: "cookie list list \<Rightarrow> cookie list \<Rightarrow> cookie list" where
  "collect_chromium [] all_cookies = all_cookies"
| "collect_chromium (cookies # exported) all_cookies =
     collect_chromium exported (extend_if all_cookies cookies)"

text \<open>
  \<open>all_cookies\<close> when \<open>main\<close> reaches the writer. The paged container is read on
  Darwin only.
\<close>

definition main_cookies ::
    "system \<Rightarrow> cookie list list \<Rightarrow> cookie list \<Rightarrow> cookie list \<Rightarrow> cookie list" where
  "main_cookies sys exported safari_cookies firefox_cookies =
     (let all_cookies = collect_chromium exported [];
          all_cookies = (if sys = Darwin then extend_if all_cookies safari_cookies
                         else all_cookies)
      in extend_if all_cookies firefox_cookies)"

text \<open>
  What \<open>export_chromium_cookies\<close> returns for one discovered browser, given by its
  name, whether its cookie file is there, its key and its rows.
\<close>

definition run_chromium ::
    "cipher_lib \<Rightarrow> clock_lib \<Rightarrow> system
       \<Rightarrow> pystr \<times> bool \<times> bytes option \<times> chromium_row list option \<Rightarrow> cookie list" where
  "run_chromium L T sys b =
     (case b of (nm, exists, key, rows) \<Rightarrow> export_chromium_cookies L T sys nm exists key rows)"

section \<open>Stand-ins for the libraries\<close>

text \<open>
  Stand-ins for the libraries, to run the model on concrete bytes. The cipher leaves
  the data as they are and every tag is sixteen zero bytes. The clock is that of a
  machine with the GNU C library, which prints a year below 1000 without leading zeros,
  and whose local time is a fixed number of seconds ahead of UTC: none for
  \<open>demo_clock\<close>, an hour for \<open>demo_clock_east\<close>.
\<close>

fun decimal :: "nat \<Rightarrow> pystr" where
  "decimal n = (if n < 10 then [48 + n] else decimal (n div 10) @ [48 + n mod 10])"

declare decimal.simps [simp del]

definition zone_local :: "int \<Rightarrow> int \<Rightarrow> pystr option" where
  "zone_local offset t =
     (case datetime_add 1970 1 1 ((t + offset) * 1000000) of
        Inl e \<Rightarrow> None
      | Inr dt \<Rightarrow> Some (strftime \<lparr>year_text = decimal, local_text = (\<lambda>t. None)\<rparr> dt))"

definition demo_clock :: clock_lib where
  "demo_clock = \<lparr>year_text = decimal, local_text = zone_local 0\<rparr>"

definition demo_clock_east :: clock_lib where
  "demo_clock_east = \<lparr>year_text = decimal, local_text = zone_local 3600\<rparr>"

definition demo_lib :: cipher_lib where
  "demo_lib = \<lparr>aes_cbc = (\<lambda>key iv data. data),
               gcm_tag = (\<lambda>key nonce data. [0, 0, 0, 0, 0, 0, 0, 0, 0, 0, 0, 0, 0, 0, 0, 0]),
               gcm_plain = (\<lambda>key nonce data. data),
               unprotect = (\<lambda>blob. None)\<rparr>"

section \<open>Example pages\<close>

text \<open>
  Three records in the layout of the container: the record size, the flags at byte 8,
  the four string offsets from byte 16 on, the expiry at byte 40, the strings from byte
  56 on. \<open>record_a\<close> is secure and http-only and expires 700000000 seconds after
  2001-01-01; \<open>record_b\<close> is secure and has the expiry \<open>-1.0\<close>; the value of \<open>record_c\<close>
  has no NUL byte after it.
\<close>

definition record_a :: bytes where
  "record_a =
     [71, 0, 0, 0,  0, 0, 0, 0,  5, 0, 0, 0,  0, 0, 0, 0,
      56, 0, 0, 0,  62, 0, 0, 0,  66, 0, 0, 0,  68, 0, 0, 0,
      0, 0, 0, 0, 0, 0, 0, 0,  0, 0, 0, 128, 147, 220, 196, 65,
      0, 0, 0, 0, 0, 0, 0, 0]
     @ bytes_of ''.a.io'' @ [0] @ bytes_of ''sid'' @ [0] @ bytes_of ''/'' @ [0]
     @ bytes_of ''v1'' @ [0]"

definition record_b :: bytes where
  "record_b =
     [67, 0, 0, 0,  0, 0, 0, 0,  1, 0, 0, 0,  0, 0, 0, 0,
      56, 0, 0, 0,  61, 0, 0, 0,  63, 0, 0, 0,  65, 0, 0, 0,
      0, 0, 0, 0, 0, 0, 0, 0,  0, 0, 0, 0, 0, 0, 240, 191,
      0, 0, 0, 0, 0, 0, 0, 0]
     @ bytes_of ''b.io'' @ [0] @ bytes_of ''k'' @ [0] @ bytes_of ''/'' @ [0]
     @ bytes_of ''w'' @ [0]"

definition record_c :: bytes where
  "record_c =
     [70, 0, 0, 0,  0, 0, 0, 0,  4, 0, 0, 0,  0, 0, 0, 0,
      56, 0, 0, 0,  61, 0, 0, 0,  63, 0, 0, 0,  66, 0, 0, 0,
      0, 0, 0, 0, 0, 0, 0, 0,  0, 0, 0, 0, 0, 0, 0, 0,
      0, 0, 0, 0, 0, 0, 0, 0]
     @ bytes_of ''c.io'' @ [0] @ bytes_of ''n'' @ [0] @ bytes_of ''/x'' @ [0]
     @ bytes_of ''tail''"

text \<open>\<open>record_d\<close> is \<open>record_b\<close> with the expiry \<open>+inf\<close>.\<close>

definition record_d :: bytes where
  "record_d =
     [67, 0, 0, 0,  0, 0, 0, 0,  1, 0, 0, 0,  0, 0, 0, 0,
      56, 0, 0, 0,  61, 0, 0, 0,  63, 0, 0, 0,  65, 0, 0, 0,
      0, 0, 0, 0, 0, 0, 0, 0,  0, 0, 0, 0, 0, 0, 240, 127,
      0, 0, 0, 0, 0, 0, 0, 0]
     @ bytes_of ''b.io'' @ [0] @ bytes_of ''k'' @ [0] @ bytes_of ''/'' @ [0]
     @ bytes_of ''w'' @ [0]"

text \<open>
  Pages: the magic, the number of records, the offset table, four zero bytes, the
  records. The second entry of the table of \<open>page_corrupt\<close> is 4096, far behind the end.
\<close>

definition page_one :: bytes where
  "page_one = [0, 0, 1, 0,  1, 0, 0, 0,  16, 0, 0, 0,  0, 0, 0, 0] @ record_a"

definition page_negative :: bytes where
  "page_negative = [0, 0, 1, 0,  1, 0, 0, 0,  16, 0, 0, 0,  0, 0, 0, 0] @ record_b"

definition page_infinite :: bytes where
  "page_infinite = [0, 0, 1, 0,  1, 0, 0, 0,  16, 0, 0, 0,  0, 0, 0, 0] @ record_d"

definition page_unterminated :: bytes where
  "page_unterminated =
     [0, 0, 1, 0,  2, 0, 0, 0,  20, 0, 0, 0,  91, 0, 0, 0,  0, 0, 0, 0] @ record_a @ record_c"

definition page_corrupt :: bytes where
  "page_corrupt =
     [0, 0, 1, 0,  3, 0, 0, 0,  24, 0, 0, 0,  0, 16, 0, 0,  95, 0, 0, 0,  0, 0, 0, 0]
     @ record_a @ record_b"

text \<open>The record of an offset, when its parsing raises nothing.\<close>

definition record_or_none :: "clock_lib \<Rightarrow> bytes \<Rightarrow> nat \<Rightarrow> cookie option" where
  "record_or_none T data off =
     (case parse_record T data off of Inl e \<Rightarrow> None | Inr c \<Rightarrow> Some c)"

(*DEFS*)

section \<open>Properties of the decoder\<close>

subsection \<open>Slices as \<open>take\<close> and \<open>drop\<close>\<close>

lemma py_slice_from: "py_slice xs (Some (int k)) None = drop k xs"
  by (auto simp add: py_slice_def clip_index_def min_def Let_def)

lemma py_slice_upto: "py_slice xs None (Some (int k)) = take k xs"
  by (auto simp add: py_slice_def clip_index_def min_def Let_def)

lemma py_slice_drop_last:
  "0 \<le> i \<Longrightarrow>
     py_slice xs None (Some (- i)) = (if i = 0 then [] else take (length xs - nat i) xs)"
  by (auto simp add: py_slice_def clip_index_def nat_diff_distrib')

lemma strip_padding:
  "py_slice xs None (Some (- int (unat (b :: byte)))) =
     (if b = 0 then [] else take (length xs - unat b) xs)"
proof (cases "b = 0")
  case True
  then show ?thesis by (simp add: py_slice_def clip_index_def)
next
  case False
  then have "0 < unat b"
    by (simp add: unat_gt_0)
  then show ?thesis
    using False py_slice_drop_last [of "int (unat b)" xs] by (simp del: of_nat_unat)
qed

lemma py_slice_upto_zero [simp]: "py_slice xs None (Some 0) = []"
  by (simp add: py_slice_def clip_index_def)

lemma py_slice_last:
  "0 < k \<Longrightarrow> py_slice xs (Some (- int k)) None = drop (length xs - k) xs"
  by (auto simp add: py_slice_def clip_index_def nat_diff_distrib')

lemma py_slice_mid:
  "0 < k \<Longrightarrow> py_slice xs (Some (int a)) (Some (- int k)) = take (length xs - k - a) (drop a xs)"
  by (auto simp add: py_slice_def clip_index_def nat_diff_distrib' min_def Let_def)

lemma py_slice_range:
  "py_slice xs (Some (int a)) (Some (int b)) = take (b - a) (drop a xs)"
  by (auto simp add: py_slice_def clip_index_def min_def Let_def)

lemma py_index_last:
  "py_index xs (- 1) = (if xs = [] then Inl IndexError else Inr (last xs))"
  by (cases xs rule: rev_cases) (auto simp add: py_index_def)

lemmas slice_simps = py_slice_from [of _ 3, simplified] py_slice_upto [of _ 3, simplified]
  py_slice_from [of _ 15, simplified] py_slice_from [of _ 32, simplified]
  py_slice_last [of 16, simplified] py_slice_mid [of 16 _ 15, simplified]
  py_slice_range [of _ 3 15, simplified]

lemma markers_differ: "bytes_of ''v10'' \<noteq> bytes_of ''v11''"
  by (simp add: bytes_of_def)

lemma marker_nonempty: "take 3 ev = bytes_of s \<Longrightarrow> s \<noteq> [] \<Longrightarrow> ev \<noteq> []"
  by (auto simp add: bytes_of_def)

lemma v10_finish_eq:
  "v10_finish plain =
     (if plain = [] then Inl IndexError
      else if last plain = 0 then Inr []
      else Inr (v10_words plain))"
proof (cases "plain = []")
  case True
  then show ?thesis by (simp add: v10_finish_def py_index_last)
next
  case False
  then have "py_index plain (- 1) = Inr (last plain)"
    by (simp add: py_index_last)
  then show ?thesis
    using False
    by (simp add: v10_finish_def v10_words_def strip_padding Let_def slice_simps
        del: of_nat_unat)
qed

lemma decrypt_v10_eq:
  "decrypt_v10 L ev key =
     (if \<not> key_ok key \<or> length (drop 3 ev) mod 16 \<noteq> 0 then Inl ValueError
      else v10_finish (aes_cbc L key (replicate 16 0x20) (drop 3 ev)))"
  by (simp add: decrypt_v10_def cbc_decrypt_def slice_simps)

lemma decrypt_v11_eq:
  "decrypt_v11 L ev key =
     (case gcm_decrypt_and_verify L key (take 12 (drop 3 ev))
             (take (length ev - 31) (drop 15 ev)) (drop (length ev - 16) ev) of
        Inl e \<Rightarrow> Inl e
      | Inr plain \<Rightarrow> Inr (utf8_replace plain))"
  by (simp add: decrypt_v11_def slice_simps)

subsection \<open>The \<open>v10\<close> envelope\<close>

text \<open>
  Claim C1, as the code has it. The blob starts with the marker \<open>v10\<close> and the key has
  16 bytes. When the bytes after the marker are not a whole number of 16-byte blocks, or
  decrypt to nothing, the value is the empty text. Otherwise they are decrypted with AES
  in CBC mode under the initialization vector of 16 spaces, and the last byte \<open>n\<close> of
  the plaintext is read as the padding length: from 1 to 15 the last \<open>n\<close> bytes are
  removed, from 16 on nothing is removed and nothing is raised; then the first 32 bytes
  are dropped when more than 32 are left, and the rest is decoded as UTF-8 with
  replacement. A plaintext ending in the byte 0 is left out here.
\<close>

theorem v10_envelope:
  assumes "take 3 ev = bytes_of ''v10''" and "length key = 16"
    and "plain = aes_cbc L key (replicate 16 0x20) (drop 3 ev)"
    and "plain \<noteq> [] \<Longrightarrow> last plain \<noteq> 0"
  shows "decrypt_cookie_value L sys (Some ev) (Some key) =
           Inr (if length (drop 3 ev) mod 16 \<noteq> 0 \<or> plain = [] then [] else v10_words plain)"
proof -
  have "ev \<noteq> []"
    using assms(1) by (rule marker_nonempty) simp
  moreover have "key \<noteq> []" and "key_ok key"
    using assms(2) by (auto simp add: key_ok_def)
  moreover have "decrypt_body L sys ev key = decrypt_v10 L ev key"
    using assms(1) by (simp add: decrypt_body_def slice_simps)
  ultimately show ?thesis
    using assms(3,4)
    by (auto simp add: decrypt_cookie_value_def decrypt_v10_eq v10_finish_eq)
qed

theorem v10_envelope_witness:
  "decrypt_cookie_value demo_lib Darwin
     (Some (bytes_of ''v10'' @ bytes_of ''0123456789abcdef0123456789abcdef''
              @ bytes_of ''sid=42'' @ [10, 10, 10, 10, 10, 10, 10, 10, 10, 10]))
     (Some [1, 2, 3, 4, 5, 6, 7, 8, 9, 10, 11, 12, 13, 14, 15, 16])
   = Inr (str_of ''sid=42'')"
  using v10_envelope [where L = demo_lib and sys = Darwin
      and ev = "bytes_of ''v10'' @ bytes_of ''0123456789abcdef0123456789abcdef''
              @ bytes_of ''sid=42'' @ [10, 10, 10, 10, 10, 10, 10, 10, 10, 10]"
      and key = "[1, 2, 3, 4, 5, 6, 7, 8, 9, 10, 11, 12, 13, 14, 15, 16]"
      and plain = "bytes_of ''0123456789abcdef0123456789abcdef''
              @ bytes_of ''sid=42'' @ [10, 10, 10, 10, 10, 10, 10, 10, 10, 10]"]
  by (simp add: bytes_of_def str_of_def demo_lib_def v10_words_def)

text \<open>
  As the claim is worded, a padding length of 0 removes no byte. The code slices
  \<open>decrypted[:-0]\<close>, which is \<open>decrypted[:0]\<close>: on a 48-byte plaintext ending in the byte
  0 the code gives the empty text, the wording the last 16 bytes.
\<close>

theorem v10_zero_padding_counterexample:
  "v10_finish (bytes_of ''0123456789abcdef0123456789abcdef'' @ bytes_of ''sid=42;path=/;x'' @ [0])
     = Inr []
   \<and> v10_words (bytes_of ''0123456789abcdef0123456789abcdef'' @ bytes_of ''sid=42;path=/;x'' @ [0])
     = str_of ''sid=42;path=/;x'' @ [0]"
  by (simp add: v10_finish_eq v10_words_def bytes_of_def str_of_def)

text \<open>
  Claim C10. The marker is \<open>v10\<close>, the key is one AES takes, the ciphertext is a whole
  number of blocks and its decryption ends in the byte 0: the slice of the padding step
  is empty, the body of the \<open>try\<close> returns the empty text without raising, and so does
  the decoder.
\<close>

theorem v10_zero_byte:
  assumes "take 3 ev = bytes_of ''v10''" and "key_ok key"
    and "length (drop 3 ev) mod 16 = 0"
    and "plain = aes_cbc L key (replicate 16 0x20) (drop 3 ev)"
    and "plain \<noteq> []" and "last plain = 0"
  shows "py_slice plain None (Some (- int (unat (last plain)))) = []
       \<and> decrypt_body L sys ev key = Inr []
       \<and> decrypt_cookie_value L sys (Some ev) (Some key) = Inr []"
proof -
  have "ev \<noteq> []"
    using assms(1) by (rule marker_nonempty) simp
  moreover have "key \<noteq> []"
    using assms(2) by (auto simp add: key_ok_def)
  moreover have "decrypt_body L sys ev key = Inr []"
    using assms by (simp add: decrypt_body_def slice_simps decrypt_v10_eq v10_finish_eq)
  ultimately show ?thesis
    using assms(6) by (simp add: decrypt_cookie_value_def strip_padding del: of_nat_unat)
qed

theorem v10_zero_byte_witness:
  "decrypt_body demo_lib Darwin (bytes_of ''v10'' @ bytes_of ''sid=42;path=/;x'' @ [0])
      [1, 2, 3, 4, 5, 6, 7, 8, 9, 10, 11, 12, 13, 14, 15, 16] = Inr []
   \<and> decrypt_cookie_value demo_lib Darwin
       (Some (bytes_of ''v10'' @ bytes_of ''sid=42;path=/;x'' @ [0]))
       (Some [1, 2, 3, 4, 5, 6, 7, 8, 9, 10, 11, 12, 13, 14, 15, 16]) = Inr []"
  using v10_zero_byte [where L = demo_lib and sys = Darwin
      and ev = "bytes_of ''v10'' @ bytes_of ''sid=42;path=/;x'' @ [0]"
      and key = "[1, 2, 3, 4, 5, 6, 7, 8, 9, 10, 11, 12, 13, 14, 15, 16]"
      and plain = "bytes_of ''sid=42;path=/;x'' @ [0]"]
  by (simp add: bytes_of_def demo_lib_def key_ok_def)

subsection \<open>The \<open>v11\<close> envelope\<close>

text \<open>
  Claim C2. The blob starts with the marker \<open>v11\<close> and the key is not empty. The nonce
  is bytes 3 to 14, the tag the last 16 bytes, the ciphertext what lies between. When
  AES-GCM accepts the key and the nonce and the tag is the tag of the ciphertext, the
  value is the plaintext decoded as UTF-8 with replacement, with no byte removed; in
  every other case it is the empty text.
\<close>

theorem v11_envelope:
  assumes "take 3 ev = bytes_of ''v11''" and "key \<noteq> []"
    and "nonce = take 12 (drop 3 ev)"
    and "ciphertext = take (length ev - 31) (drop 15 ev)"
    and "tag = drop (length ev - 16) ev"
  shows "decrypt_cookie_value L sys (Some ev) (Some key) =
           Inr (if key_ok key \<and> nonce \<noteq> [] \<and> tag = gcm_tag L key nonce ciphertext
                then utf8_replace (gcm_plain L key nonce ciphertext) else [])"
proof -
  have "ev \<noteq> []"
    using assms(1) by (rule marker_nonempty) simp
  moreover have "decrypt_body L sys ev key = decrypt_v11 L ev key"
    using assms(1) markers_differ by (simp add: decrypt_body_def slice_simps)
  ultimately show ?thesis
    using assms(2-)
    by (simp add: decrypt_cookie_value_def decrypt_v11_eq gcm_decrypt_and_verify_def)
qed

theorem v11_envelope_witness:
  "decrypt_cookie_value demo_lib Windows
     (Some (bytes_of ''v11'' @ [1, 2, 3, 4, 5, 6, 7, 8, 9, 10, 11, 12] @ bytes_of ''hi''
              @ [0, 0, 0, 0, 0, 0, 0, 0, 0, 0, 0, 0, 0, 0, 0, 0]))
     (Some [1, 2, 3, 4, 5, 6, 7, 8, 9, 10, 11, 12, 13, 14, 15, 16])
   = Inr (str_of ''hi'')"
  using v11_envelope [where L = demo_lib and sys = Windows
      and ev = "bytes_of ''v11'' @ [1, 2, 3, 4, 5, 6, 7, 8, 9, 10, 11, 12] @ bytes_of ''hi''
              @ [0, 0, 0, 0, 0, 0, 0, 0, 0, 0, 0, 0, 0, 0, 0, 0]"
      and key = "[1, 2, 3, 4, 5, 6, 7, 8, 9, 10, 11, 12, 13, 14, 15, 16]"
      and nonce = "[1, 2, 3, 4, 5, 6, 7, 8, 9, 10, 11, 12]"
      and ciphertext = "bytes_of ''hi''"
      and tag = "[0, 0, 0, 0, 0, 0, 0, 0, 0, 0, 0, 0, 0, 0, 0, 0]"]
  by (simp add: bytes_of_def str_of_def demo_lib_def key_ok_def)

subsection \<open>Exceptions stay inside the decoder\<close>

lemma flip_changes: "j < 8 \<Longrightarrow> (b :: byte) XOR push_bit j 1 \<noteq> b"
proof
  assume j: "j < 8" and "b XOR push_bit j 1 = b"
  then have "b XOR (b XOR push_bit j 1) = b XOR b" by simp
  then have "(push_bit j 1 :: byte) = 0"
    by (simp add: xor.assoc [symmetric])
  moreover have "bit (push_bit j 1 :: byte) j"
    using j by (simp add: bit_simps)
  ultimately show False using j by simp
qed

lemma decrypt_tag_mismatch:
  assumes "take 3 ev = bytes_of ''v11''"
    and "drop (length ev - 16) ev
           \<noteq> gcm_tag L k (take 12 (drop 3 ev)) (take (length ev - 31) (drop 15 ev))"
  shows "decrypt_body L sys ev k = Inl ValueError"
  using assms markers_differ
  by (simp add: decrypt_body_def slice_simps decrypt_v11_eq gcm_decrypt_and_verify_def)

lemma body_failure_empty:
  "decrypt_body L sys ev k = Inl e \<Longrightarrow> decrypt_cookie_value L sys (Some ev) (Some k) = Inr []"
  by (simp add: decrypt_cookie_value_def)

lemma decoder_total: "\<exists>s. decrypt_cookie_value L sys encrypted_value key = Inr s"
  by (auto simp add: decrypt_cookie_value_def split: option.split sum.split)

lemma flipped_tag_fields:
  assumes "31 \<le> length ev" and "length ev - 16 \<le> i" and "i < length ev"
  shows "take 3 (ev[i := x]) = take 3 ev"
    and "take 12 (drop 3 (ev[i := x])) = take 12 (drop 3 ev)"
    and "take (length ev - 31) (drop 15 (ev[i := x])) = take (length ev - 31) (drop 15 ev)"
    and "drop (length ev - 16) (ev[i := x]) = (drop (length ev - 16) ev)[i - (length ev - 16) := x]"
  using assms by (simp_all add: drop_update_swap)

lemma flipped_tag_bit:
  assumes "take 3 ev = bytes_of ''v11''" and "31 \<le> length ev"
    and "drop (length ev - 16) ev
           = gcm_tag L k (take 12 (drop 3 ev)) (take (length ev - 31) (drop 15 ev))"
    and "length ev - 16 \<le> i" and "i < length ev" and "j < 8"
  shows "decrypt_body L sys (ev[i := ev ! i XOR push_bit j 1]) k = Inl ValueError"
proof -
  let ?x = "ev ! i XOR push_bit j 1"
  let ?t = "drop (length ev - 16) ev"
  have "?t ! (i - (length ev - 16)) = ev ! i"
    using assms(4,5) by simp
  then have "?t[i - (length ev - 16) := ?x] \<noteq> ?t"
    using assms(2,4,5,6) flip_changes [of j "ev ! i"]
    by (simp add: list_update_same_conv)
  then show ?thesis
    using assms(1,3) flipped_tag_fields [OF assms(2,4,5), of ?x]
    by (intro decrypt_tag_mismatch) simp_all
qed

lemma v10_body:
  "take 3 ev = bytes_of ''v10'' \<Longrightarrow> decrypt_body L sys ev k = decrypt_v10 L ev k"
  by (simp add: decrypt_body_def slice_simps)

lemma v11_body:
  "take 3 ev = bytes_of ''v11'' \<Longrightarrow> decrypt_body L sys ev k = decrypt_v11 L ev k"
  using markers_differ by (auto simp add: decrypt_body_def slice_simps)

lemma refused_key:
  assumes "take 3 ev = bytes_of ''v10'' \<or> take 3 ev = bytes_of ''v11''" and "\<not> key_ok k"
  shows "decrypt_body L sys ev k = Inl ValueError"
  using assms
  by (auto simp add: v10_body v11_body decrypt_v10_eq decrypt_v11_eq gcm_decrypt_and_verify_def)

lemma empty_plaintext:
  assumes "take 3 ev = bytes_of ''v10''" and "key_ok k" and "length (drop 3 ev) mod 16 = 0"
    and "aes_cbc L k (replicate 16 0x20) (drop 3 ev) = []"
  shows "decrypt_body L sys ev k = Inl IndexError"
  using assms by (simp add: v10_body decrypt_v10_eq v10_finish_eq)

lemma empty_nonce:
  assumes "take 3 ev = bytes_of ''v11''" and "take 12 (drop 3 ev) = []"
  shows "decrypt_body L sys ev k = Inl ValueError"
  using assms by (simp add: v11_body decrypt_v11_eq gcm_decrypt_and_verify_def)

lemma padding_left_in_place:
  assumes "take 3 ev = bytes_of ''v10''" and "key_ok k" and "length (drop 3 ev) mod 16 = 0"
    and "plain = aes_cbc L k (replicate 16 0x20) (drop 3 ev)"
    and "plain \<noteq> []" and "16 \<le> unat (last plain)"
  shows "decrypt_body L sys ev k
           = Inr (utf8_replace (if 32 < length plain then drop 32 plain else plain))"
proof -
  have "last plain \<noteq> 0"
    using assms(6) by auto
  moreover have "v10_words plain
      = utf8_replace (if 32 < length plain then drop 32 plain else plain)"
    using assms(6) by (simp add: v10_words_def Let_def)
  ultimately show ?thesis
    using assms(1-5) by (simp add: v10_body decrypt_v10_eq v10_finish_eq)
qed

lemma body_value:
  "decrypt_body L sys ev k = Inr s \<Longrightarrow> ev \<noteq> [] \<Longrightarrow> k \<noteq> []
     \<Longrightarrow> decrypt_cookie_value L sys (Some ev) (Some k) = Inr s"
  by (simp add: decrypt_cookie_value_def)

text \<open>
  Claim C3, as the code has it. For every blob and key, \<open>None\<close> included, the decoder
  returns a text and raises nothing. Whatever the body of the \<open>try\<close> raises, the value
  is the empty text, and the body raises for: a \<open>v10\<close> ciphertext that is not a whole
  number of blocks; a \<open>v10\<close> ciphertext that decrypts to nothing; a \<open>v10\<close> or \<open>v11\<close> blob
  with a key of a length AES refuses; a \<open>v11\<close> blob with an empty nonce; a \<open>v11\<close> tag that
  is not the tag of the ciphertext. So a valid \<open>v11\<close> envelope of at least 31 bytes gives
  the empty text after one bit of its tag is flipped. A last plaintext byte of 16 or
  more raises nothing and removes nothing from the end: the value is the plaintext,
  without its first 32 bytes when it has more than 32, decoded with replacement.
\<close>

theorem decoder_contains_exceptions:
  "(\<exists>s. decrypt_cookie_value L sys encrypted_value key = Inr s)
   \<and> (\<forall>e. decrypt_body L sys ev k = Inl e
          \<longrightarrow> decrypt_cookie_value L sys (Some ev) (Some k) = Inr [])
   \<and> (take 3 ev = bytes_of ''v10'' \<and> length (drop 3 ev) mod 16 \<noteq> 0
          \<longrightarrow> decrypt_body L sys ev k = Inl ValueError)
   \<and> (take 3 ev = bytes_of ''v10'' \<and> key_ok k \<and> length (drop 3 ev) mod 16 = 0
        \<and> aes_cbc L k (replicate 16 0x20) (drop 3 ev) = []
          \<longrightarrow> decrypt_body L sys ev k = Inl IndexError)
   \<and> ((take 3 ev = bytes_of ''v10'' \<or> take 3 ev = bytes_of ''v11'') \<and> \<not> key_ok k
          \<longrightarrow> decrypt_body L sys ev k = Inl ValueError)
   \<and> (take 3 ev = bytes_of ''v11'' \<and> take 12 (drop 3 ev) = []
          \<longrightarrow> decrypt_body L sys ev k = Inl ValueError)
   \<and> (take 3 ev = bytes_of ''v11''
        \<and> drop (length ev - 16) ev
              \<noteq> gcm_tag L k (take 12 (drop 3 ev)) (take (length ev - 31) (drop 15 ev))
          \<longrightarrow> decrypt_body L sys ev k = Inl ValueError)
   \<and> (take 3 ev = bytes_of ''v11'' \<and> 31 \<le> length ev
        \<and> drop (length ev - 16) ev
              = gcm_tag L k (take 12 (drop 3 ev)) (take (length ev - 31) (drop 15 ev))
        \<and> length ev - 16 \<le> i \<and> i < length ev \<and> j < 8
          \<longrightarrow> decrypt_cookie_value L sys (Some (ev[i := ev ! i XOR push_bit j 1])) (Some k)
                = Inr [])
   \<and> (take 3 ev = bytes_of ''v10'' \<and> key_ok k \<and> length (drop 3 ev) mod 16 = 0
        \<and> aes_cbc L k (replicate 16 0x20) (drop 3 ev) \<noteq> []
        \<and> 16 \<le> unat (last (aes_cbc L k (replicate 16 0x20) (drop 3 ev)))
          \<longrightarrow> decrypt_cookie_value L sys (Some ev) (Some k)
                = Inr (utf8_replace
                        (if 32 < length (aes_cbc L k (replicate 16 0x20) (drop 3 ev))
                         then drop 32 (aes_cbc L k (replicate 16 0x20) (drop 3 ev))
                         else aes_cbc L k (replicate 16 0x20) (drop 3 ev))))"
proof (intro conjI allI impI)
  show "\<exists>s. decrypt_cookie_value L sys encrypted_value key = Inr s"
    by (rule decoder_total)
next
  fix e
  assume "decrypt_body L sys ev k = Inl e"
  then show "decrypt_cookie_value L sys (Some ev) (Some k) = Inr []"
    by (rule body_failure_empty)
next
  assume "take 3 ev = bytes_of ''v10'' \<and> length (drop 3 ev) mod 16 \<noteq> 0"
  then show "decrypt_body L sys ev k = Inl ValueError"
    by (simp add: v10_body decrypt_v10_eq)
next
  assume "take 3 ev = bytes_of ''v10'' \<and> key_ok k \<and> length (drop 3 ev) mod 16 = 0
        \<and> aes_cbc L k (replicate 16 0x20) (drop 3 ev) = []"
  then show "decrypt_body L sys ev k = Inl IndexError"
    by (intro empty_plaintext) simp_all
next
  assume "(take 3 ev = bytes_of ''v10'' \<or> take 3 ev = bytes_of ''v11'') \<and> \<not> key_ok k"
  then show "decrypt_body L sys ev k = Inl ValueError"
    by (intro refused_key) simp_all
next
  assume "take 3 ev = bytes_of ''v11'' \<and> take 12 (drop 3 ev) = []"
  then show "decrypt_body L sys ev k = Inl ValueError"
    by (intro empty_nonce) simp_all
next
  assume "take 3 ev = bytes_of ''v11''
        \<and> drop (length ev - 16) ev
              \<noteq> gcm_tag L k (take 12 (drop 3 ev)) (take (length ev - 31) (drop 15 ev))"
  then show "decrypt_body L sys ev k = Inl ValueError"
    by (simp add: decrypt_tag_mismatch)
next
  assume "take 3 ev = bytes_of ''v11'' \<and> 31 \<le> length ev
        \<and> drop (length ev - 16) ev
              = gcm_tag L k (take 12 (drop 3 ev)) (take (length ev - 31) (drop 15 ev))
        \<and> length ev - 16 \<le> i \<and> i < length ev \<and> j < 8"
  then have "decrypt_body L sys (ev[i := ev ! i XOR push_bit j 1]) k = Inl ValueError"
    by (intro flipped_tag_bit) simp_all
  then show "decrypt_cookie_value L sys (Some (ev[i := ev ! i XOR push_bit j 1])) (Some k)
                = Inr []"
    by (rule body_failure_empty)
next
  let ?plain = "aes_cbc L k (replicate 16 0x20) (drop 3 ev)"
  assume a: "take 3 ev = bytes_of ''v10'' \<and> key_ok k \<and> length (drop 3 ev) mod 16 = 0
        \<and> ?plain \<noteq> [] \<and> 16 \<le> unat (last ?plain)"
  then have "decrypt_body L sys ev k
      = Inr (utf8_replace (if 32 < length ?plain then drop 32 ?plain else ?plain))"
    by (intro padding_left_in_place) simp_all
  moreover have "ev \<noteq> []"
    using a marker_nonempty [of ev "''v10''"] by simp
  moreover have "k \<noteq> []"
    using a by (auto simp add: key_ok_def)
  ultimately show "decrypt_cookie_value L sys (Some ev) (Some k)
      = Inr (utf8_replace (if 32 < length ?plain then drop 32 ?plain else ?plain))"
    by (rule body_value)
qed


theorem decoder_contains_exceptions_witness:
  "decrypt_cookie_value demo_lib Linux (Some (bytes_of ''v10'' @ [1, 2, 3, 4, 5]))
       (Some [1, 2, 3, 4, 5, 6, 7, 8, 9, 10, 11, 12, 13, 14, 15, 16]) = Inr []
   \<and> decrypt_body demo_lib Linux (bytes_of ''v10'')
       [1, 2, 3, 4, 5, 6, 7, 8, 9, 10, 11, 12, 13, 14, 15, 16] = Inl IndexError
   \<and> decrypt_body demo_lib Linux (bytes_of ''v10'' @ [1, 2, 3, 4, 5]) [1, 2, 3]
       = Inl ValueError
   \<and> decrypt_body demo_lib Linux (bytes_of ''v11'')
       [1, 2, 3, 4, 5, 6, 7, 8, 9, 10, 11, 12, 13, 14, 15, 16] = Inl ValueError
   \<and> decrypt_cookie_value demo_lib Linux
       (Some (bytes_of ''v11'' @ [1, 2, 3, 4, 5, 6, 7, 8, 9, 10, 11, 12] @ bytes_of ''hi''
                @ [0, 0, 0, 0, 0, 0, 0, 0, 0, 0, 0, 0, 0, 0, 0, 1]))
       (Some [1, 2, 3, 4, 5, 6, 7, 8, 9, 10, 11, 12, 13, 14, 15, 16]) = Inr []
   \<and> decrypt_cookie_value demo_lib Linux
       (Some (bytes_of ''v10'' @ bytes_of ''0123456789abcdef0123456789abcdef''
                @ bytes_of ''session=abcdefgh''))
       (Some [1, 2, 3, 4, 5, 6, 7, 8, 9, 10, 11, 12, 13, 14, 15, 16])
     = Inr (str_of ''session=abcdefgh'')"
proof -
  let ?key = "[1, 2, 3, 4, 5, 6, 7, 8, 9, 10, 11, 12, 13, 14, 15, 16] :: bytes"
  have short: "decrypt_cookie_value demo_lib Linux (Some (bytes_of ''v10'' @ [1, 2, 3, 4, 5]))
       (Some ?key) = Inr []"
    using decoder_contains_exceptions [where L = demo_lib and sys = Linux
        and ev = "bytes_of ''v10'' @ [1, 2, 3, 4, 5]" and k = ?key]
    by (simp add: bytes_of_def)
  have emptied: "decrypt_body demo_lib Linux (bytes_of ''v10'') ?key = Inl IndexError"
    using decoder_contains_exceptions [where L = demo_lib and sys = Linux
        and ev = "bytes_of ''v10''" and k = ?key]
    by (simp add: bytes_of_def demo_lib_def key_ok_def)
  have refused: "decrypt_body demo_lib Linux (bytes_of ''v10'' @ [1, 2, 3, 4, 5]) [1, 2, 3]
       = Inl ValueError"
    using decoder_contains_exceptions [where L = demo_lib and sys = Linux
        and ev = "bytes_of ''v10'' @ [1, 2, 3, 4, 5]" and k = "[1, 2, 3]"]
    by (simp add: bytes_of_def key_ok_def)
  have nonce: "decrypt_body demo_lib Linux (bytes_of ''v11'') ?key = Inl ValueError"
    using decoder_contains_exceptions [where L = demo_lib and sys = Linux
        and ev = "bytes_of ''v11''" and k = ?key]
    by (simp add: bytes_of_def)
  have flipped: "decrypt_cookie_value demo_lib Linux
       (Some (bytes_of ''v11'' @ [1, 2, 3, 4, 5, 6, 7, 8, 9, 10, 11, 12] @ bytes_of ''hi''
                @ [0, 0, 0, 0, 0, 0, 0, 0, 0, 0, 0, 0, 0, 0, 0, 1]))
       (Some ?key) = Inr []"
    using decoder_contains_exceptions [where L = demo_lib and sys = Linux
        and ev = "bytes_of ''v11'' @ [1, 2, 3, 4, 5, 6, 7, 8, 9, 10, 11, 12] @ bytes_of ''hi''
              @ [0, 0, 0, 0, 0, 0, 0, 0, 0, 0, 0, 0, 0, 0, 0, 0]"
        and k = ?key and i = 32 and j = 0]
    by (simp add: bytes_of_def demo_lib_def)
  have padded: "decrypt_cookie_value demo_lib Linux
       (Some (bytes_of ''v10'' @ bytes_of ''0123456789abcdef0123456789abcdef''
                @ bytes_of ''session=abcdefgh''))
       (Some ?key) = Inr (str_of ''session=abcdefgh'')"
    using decoder_contains_exceptions [where L = demo_lib and sys = Linux
        and ev = "bytes_of ''v10'' @ bytes_of ''0123456789abcdef0123456789abcdef''
                @ bytes_of ''session=abcdefgh''" and k = ?key]
    by (simp add: bytes_of_def str_of_def demo_lib_def key_ok_def)
  show ?thesis
    by (intro conjI short emptied refused nonce flipped padded)
qed

text \<open>
  The claim lists a bad padding length among the failures that give the empty text.
  The code raises nothing for it: a 16-byte plaintext with no padding at all, whose last
  byte is 104, comes back whole as the value. (Of a longer plaintext the first 32 bytes
  are dropped as always; the witness above has one of 48 bytes.)
\<close>

theorem bad_padding_length_counterexample:
  "v10_finish (bytes_of ''session=abcdefgh'') = Inr (str_of ''session=abcdefgh'')
   \<and> decrypt_cookie_value demo_lib Darwin (Some (bytes_of ''v10'' @ bytes_of ''session=abcdefgh''))
       (Some [1, 2, 3, 4, 5, 6, 7, 8, 9, 10, 11, 12, 13, 14, 15, 16])
     = Inr (str_of ''session=abcdefgh'')"
  by (simp add: decrypt_cookie_value_def decrypt_body_def slice_simps decrypt_v10_eq
      v10_finish_eq v10_words_def bytes_of_def str_of_def demo_lib_def key_ok_def)

section \<open>Properties of the paged container parser\<close>

subsection \<open>Fields, strings and the loop\<close>

lemma le_nat_4: "le_nat [b0, b1, b2, b3]
    = unat b0 + 256 * unat b1 + 65536 * unat b2 + 16777216 * unat b3"
  by (simp add: le_nat_def)

lemma unpack_I_field:
  "unpack_I (py_slice d (Some (int a)) (Some (int (a + 4))))
     = (if a + 4 \<le> length d then Inr (le_nat (take 4 (drop a d))) else Inl StructError)"
  by (auto simp add: unpack_I_def py_slice_range min_def simp del: of_nat_add)

lemma unpack_d_field:
  "unpack_d (py_slice d (Some (int a)) (Some (int (a + 8))))
     = (if a + 8 \<le> length d then Inr (of_nat (le_nat (take 8 (drop a d))))
        else Inl StructError)"
  by (auto simp add: unpack_d_def py_slice_range min_def simp del: of_nat_add)

lemmas record_fields = unpack_I_field [of _ 8, simplified] unpack_I_field [of _ 16, simplified]
  unpack_I_field [of _ 20, simplified] unpack_I_field [of _ 24, simplified]
  unpack_I_field [of _ 28, simplified] unpack_d_field [of _ 40, simplified]

lemma find_from_eq:
  "find_from xs b k
     = (if b \<in> set xs then int (k + length (takeWhile (\<lambda>x. x \<noteq> b) xs)) else - 1)"
  by (induction xs arbitrary: k) auto

lemma read_str_terminated:
  assumes "0 \<in> set (drop o' d)"
  shows "read_str d o' = utf8_replace (takeWhile (\<lambda>b. b \<noteq> 0) (drop o' d))"
proof -
  let ?n = "length (takeWhile (\<lambda>b. b \<noteq> 0) (drop o' d))"
  have "py_find d 0 o' = int (o' + ?n)"
    using assms by (simp add: py_find_def find_from_eq)
  moreover have "take ?n (drop o' d) = takeWhile (\<lambda>b. b \<noteq> 0) (drop o' d)"
    by (metis takeWhile_eq_take)
  ultimately show ?thesis
    by (simp add: read_str_def py_slice_range del: of_nat_add)
qed

lemma read_str_unterminated:
  assumes "0 \<notin> set (drop o' d)"
  shows "read_str d o' = utf8_replace (take (length d - 1 - o') (drop o' d))"
proof -
  have "py_find d 0 o' = - 1"
    using assms by (simp add: py_find_def find_from_eq)
  moreover have "py_slice d (Some (int o')) (Some (- 1)) = take (length d - 1 - o') (drop o' d)"
    using py_slice_mid [of 1 d o'] by simp
  ultimately show ?thesis
    by (simp add: read_str_def)
qed

lemma flag_bit_0: "(flags AND 0x1 \<noteq> 0) = bit (flags :: nat) 0"
  using bit_iff_and_push_bit_not_eq_0 [of flags 0] by simp

lemma flag_bit_2: "(flags AND 0x4 \<noteq> 0) = bit (flags :: nat) 2"
  using bit_iff_and_push_bit_not_eq_0 [of flags 2] by simp

lemma parse_records_eq:
  "parse_records T data offsets cookies
     = cookies @ List.map_filter (record_or_none T data) offsets"
  by (induction offsets arbitrary: cookies)
     (auto simp add: List.map_filter_simps record_or_none_def split: sum.split)

lemma offset_past_end:
  "length data \<le> off \<Longrightarrow> parse_record T data off = Inl StructError"
  by (simp add: parse_record_def py_slice_from record_fields)

lemmas run_page = bytes_of_def str_of_def parse_safari_page_def py_slice_def clip_index_def
  unpack_I_def unpack_d_def le_nat_def parse_record_def Let_def safari_expiry_def
  float_gt_zero_def float_negative_def float_is_nan_def float_is_zero_def float_is_inf_def
  float_exponent_def float_fraction_def mac_epoch_text_def timedelta_seconds_def
  seconds_to_us_def timedelta_us_def us_per_day_def datetime_add_def ymd2ord_def
  days_before_year_def is_leap_def days_before_month_def days_in_month_def ord2ymd_def
  max_ordinal_def strftime_def four_digits_def two_digits_def demo_clock_def read_str_def
  py_find_def upt_rec

lemmas run_clock = safari_expiry_def
  float_gt_zero_def float_negative_def float_is_nan_def float_is_zero_def float_is_inf_def
  float_exponent_def float_fraction_def mac_epoch_text_def timedelta_seconds_def
  seconds_to_us_def timedelta_us_def us_per_day_def datetime_add_def ymd2ord_def
  days_before_year_def is_leap_def days_before_month_def days_in_month_def ord2ymd_def
  max_ordinal_def strftime_def four_digits_def two_digits_def demo_clock_def Let_def

subsection \<open>The layout of a record\<close>

text \<open>
  Claim C4. Let \<open>d\<close> be the page from the record's offset on, at least 48 bytes long,
  with a NUL byte at or after each of the four string offsets, and let the expiry text
  be computed without an exception. Then the record is produced, and: the flags are the
  little-endian number of bytes 8 to 11 of \<open>d\<close>, the offsets of the domain, the name, the
  path and the value those of bytes 16 to 19, 20 to 23, 24 to 27 and 28 to 31, the expiry
  the double of bytes 40 to 47; \<open>secure\<close> is bit 0 of the flags and \<open>httponly\<close> bit 2;
  each string is the bytes from its offset up to the next NUL byte, decoded as UTF-8 with
  replacement.
\<close>

theorem record_layout:
  assumes "d = drop off data" and "48 \<le> length d"
    and "flags = le_nat (take 4 (drop 8 d))"
    and "url_off = le_nat (take 4 (drop 16 d))"
    and "name_off = le_nat (take 4 (drop 20 d))"
    and "path_off = le_nat (take 4 (drop 24 d))"
    and "val_off = le_nat (take 4 (drop 28 d))"
    and "exp = of_nat (le_nat (take 8 (drop 40 d)))"
    and "\<forall>o' \<in> {url_off, name_off, path_off, val_off}. 0 \<in> set (drop o' d)"
    and "safari_expiry T exp = Inr exp_str"
  shows "parse_record T data off =
     Inr \<lparr>browser = str_of ''Safari'',
          domain = utf8_replace (takeWhile (\<lambda>b. b \<noteq> 0) (drop url_off d)),
          name = utf8_replace (takeWhile (\<lambda>b. b \<noteq> 0) (drop name_off d)),
          val = utf8_replace (takeWhile (\<lambda>b. b \<noteq> 0) (drop val_off d)),
          path = utf8_replace (takeWhile (\<lambda>b. b \<noteq> 0) (drop path_off d)),
          expires = exp_str,
          secure = bit flags 0,
          httponly = bit flags 2,
          samesite = Some 0\<rparr>"
proof -
  have "py_slice data (Some (int off)) None = d"
    using assms(1) by (simp add: py_slice_from)
  then show ?thesis
    unfolding parse_record_def Let_def
    using assms(2-)
    by (simp only: flag_bit_0 flag_bit_2) (simp add: record_fields read_str_terminated)
qed

theorem record_layout_witness:
  "parse_record demo_clock page_one 16 =
     Inr \<lparr>browser = str_of ''Safari'', domain = str_of ''.a.io'', name = str_of ''sid'',
          val = str_of ''v1'', path = str_of ''/'', expires = str_of ''2023-03-08 20:26:40'',
          secure = True, httponly = True, samesite = Some 0\<rparr>"
proof -
  have d: "record_a = drop 16 page_one"
    by (simp add: page_one_def)
  have len: "48 \<le> length record_a"
    by (simp add: record_a_def)
  have flags: "5 = le_nat (take 4 (drop 8 record_a))"
    and url: "56 = le_nat (take 4 (drop 16 record_a))"
    and name: "62 = le_nat (take 4 (drop 20 record_a))"
    and path: "66 = le_nat (take 4 (drop 24 record_a))"
    and val: "68 = le_nat (take 4 (drop 28 record_a))"
    and exp: "(0x41C4DC9380000000 :: 64 word) = of_nat (le_nat (take 8 (drop 40 record_a)))"
    by (simp_all add: record_a_def le_nat_def)
  have nul: "\<forall>o' \<in> {56, 62, 66, 68}. 0 \<in> set (drop o' record_a)"
    by (simp add: record_a_def bytes_of_def)
  have expiry: "safari_expiry demo_clock 0x41C4DC9380000000
                  = Inr (str_of ''2023-03-08 20:26:40'')"
    by (simp add: run_clock str_of_def)
  have strings: "utf8_replace (takeWhile (\<lambda>b. b \<noteq> 0) (drop 56 record_a)) = str_of ''.a.io''"
    "utf8_replace (takeWhile (\<lambda>b. b \<noteq> 0) (drop 62 record_a)) = str_of ''sid''"
    "utf8_replace (takeWhile (\<lambda>b. b \<noteq> 0) (drop 66 record_a)) = str_of ''/''"
    "utf8_replace (takeWhile (\<lambda>b. b \<noteq> 0) (drop 68 record_a)) = str_of ''v1''"
    by (simp_all add: record_a_def bytes_of_def str_of_def)
  have bits: "bit (5 :: nat) 0" "bit (5 :: nat) 2"
    by (simp_all add: bit_iff_odd)
  show ?thesis
    using record_layout [OF d len flags url name path val exp nul expiry]
    by (simp only: strings bits)
qed

subsection \<open>The expiry of a record\<close>

lemma parse_record_Inr:
  assumes "parse_record T data off = Inr c"
  shows "48 \<le> length (drop off data)
       \<and> safari_expiry T (of_nat (le_nat (take 8 (drop 40 (drop off data))))) = Inr (expires c)"
  using assms
  unfolding parse_record_def Let_def py_slice_from
  by (auto simp add: record_fields split: if_splits sum.splits)

lemma strftime_not_session: "strftime T dt \<noteq> str_of ''Session''"
proof -
  obtain y m d H M S where "dt = (y, m, d, H, M, S)"
    by (metis prod_cases6)
  then have "15 \<le> length (strftime T dt)"
    by (simp add: strftime_def two_digits_def str_of_def)
  then show ?thesis
    by (auto simp add: str_of_def)
qed

lemma mac_epoch_not_session: "mac_epoch_text T exp = Inr s \<Longrightarrow> s \<noteq> str_of ''Session''"
  by (auto simp add: mac_epoch_text_def strftime_not_session split: sum.splits)

text \<open>
  Claim C6, as the code has it. In a record that is produced, the expiry text is the
  sentinel \<open>"Session"\<close> exactly when the stored double is not above zero: negative, a
  NaN, or zero. Every double above zero is converted from the Mac epoch, and the record
  is produced only when that conversion raises nothing.
\<close>

theorem expiry_sentinel:
  assumes "parse_record T data off = Inr c"
    and "exp = of_nat (le_nat (take 8 (drop 40 (drop off data))))"
  shows "(expires c = str_of ''Session'')
           = (float_negative exp \<or> float_is_nan exp \<or> float_is_zero exp)
       \<and> (float_gt_zero exp \<longrightarrow> mac_epoch_text T exp = Inr (expires c))"
proof -
  have e: "safari_expiry T exp = Inr (expires c)"
    using parse_record_Inr [OF assms(1)] assms(2) by simp
  show ?thesis
  proof (cases "float_gt_zero exp")
    case True
    then have "mac_epoch_text T exp = Inr (expires c)"
      using e by (simp add: safari_expiry_def)
    then show ?thesis
      using True mac_epoch_not_session [of T exp "expires c"]
      by (simp add: float_gt_zero_def)
  next
    case False
    then show ?thesis
      using e by (auto simp add: safari_expiry_def float_gt_zero_def)
  qed
qed

theorem expiry_sentinel_witness:
  "str_of ''2023-03-08 20:26:40'' \<noteq> str_of ''Session''
   \<and> mac_epoch_text demo_clock 0x41C4DC9380000000 = Inr (str_of ''2023-03-08 20:26:40'')"
proof -
  let ?c = "\<lparr>browser = str_of ''Safari'', domain = str_of ''.a.io'', name = str_of ''sid'',
          val = str_of ''v1'', path = str_of ''/'', expires = str_of ''2023-03-08 20:26:40'',
          secure = True, httponly = True, samesite = Some 0\<rparr>"
  have parsed: "parse_record demo_clock page_one 16 = Inr ?c"
    by (simp add: page_one_def record_a_def run_page)
  have exp: "(0x41C4DC9380000000 :: 64 word)
               = of_nat (le_nat (take 8 (drop 40 (drop 16 page_one))))"
    by (simp add: page_one_def record_a_def le_nat_def)
  have pos: "float_gt_zero 0x41C4DC9380000000"
    and signs: "\<not> float_negative 0x41C4DC9380000000" "\<not> float_is_nan 0x41C4DC9380000000"
      "\<not> float_is_zero 0x41C4DC9380000000"
    by (simp_all add: float_gt_zero_def float_negative_def float_is_nan_def float_is_zero_def
        float_exponent_def float_fraction_def)
  show ?thesis
    using expiry_sentinel [OF parsed exp] pos signs by simp
qed

text \<open>
  The claim gives the sentinel to the expiry zero only. The code tests \<open>exp > 0\<close>: the
  record of \<open>page_negative\<close> stores \<open>-1.0\<close>, which is not zero, and gets the sentinel.
\<close>

theorem negative_expiry_counterexample:
  "unpack_d (py_slice record_b (Some 40) (Some 48)) = Inr 0xBFF0000000000000
   \<and> float_negative 0xBFF0000000000000 \<and> \<not> float_is_zero 0xBFF0000000000000
   \<and> parse_safari_page demo_clock page_negative =
       Inr [\<lparr>browser = str_of ''Safari'', domain = str_of ''b.io'', name = str_of ''k'',
             val = str_of ''w'', path = str_of ''/'', expires = str_of ''Session'',
             secure = True, httponly = False, samesite = Some 0\<rparr>]"
  by (simp add: page_negative_def record_b_def run_page)

subsection \<open>Records that fail\<close>

text \<open>
  The records of a page are those of its offsets that parse, in the order of the table:
  a record that raises leaves the others as they are. An offset at or behind the end of
  the page raises, as the second entry of \<open>page_corrupt\<close> does.
\<close>

lemma page_records:
  assumes "py_slice data None (Some 4) = [0x00, 0x00, 0x01, 0x00]"
    and "unpack_I (py_slice data (Some 4) (Some 8)) = Inr num"
    and "read_offsets data [0..<num] = Inr offsets"
  shows "parse_safari_page T data = Inr (List.map_filter (record_or_none T data) offsets)"
  using assms by (simp add: parse_safari_page_def parse_records_eq)

lemma corrupt_offset_skipped:
  "parse_safari_page demo_clock page_corrupt =
     Inr [\<lparr>browser = str_of ''Safari'', domain = str_of ''.a.io'', name = str_of ''sid'',
            val = str_of ''v1'', path = str_of ''/'', expires = str_of ''2023-03-08 20:26:40'',
            secure = True, httponly = True, samesite = Some 0\<rparr>,
          \<lparr>browser = str_of ''Safari'', domain = str_of ''b.io'', name = str_of ''k'',
            val = str_of ''w'', path = str_of ''/'', expires = str_of ''Session'',
            secure = True, httponly = False, samesite = Some 0\<rparr>]"
  by (simp add: page_corrupt_def record_a_def record_b_def run_page)

text \<open>
  Claim C5 at a string with no NUL byte behind it. \<open>find\<close> returns \<open>-1\<close> and raises
  nothing, so the slice \<open>d[o:-1]\<close> is taken: the second record of \<open>page_unterminated\<close>
  is not skipped, it is produced with the value \<open>tai\<close> for the bytes \<open>tail\<close>.
\<close>

theorem unterminated_string_kept:
  "parse_safari_page demo_clock page_unterminated =
     Inr [\<lparr>browser = str_of ''Safari'', domain = str_of ''.a.io'', name = str_of ''sid'',
            val = str_of ''v1'', path = str_of ''/'', expires = str_of ''2023-03-08 20:26:40'',
            secure = True, httponly = True, samesite = Some 0\<rparr>,
          \<lparr>browser = str_of ''Safari'', domain = str_of ''c.io'', name = str_of ''n'',
            val = str_of ''tai'', path = str_of ''/x'', expires = str_of ''Session'',
            secure = False, httponly = True, samesite = Some 0\<rparr>]"
  by (simp add: page_unterminated_def record_a_def record_c_def run_page)

section \<open>Properties of the exporters and of \<open>main\<close>\<close>

lemma extend_if_eq: "extend_if all_cookies cookies = all_cookies @ cookies"
  by (simp add: extend_if_def)

lemma collect_chromium_eq: "collect_chromium exported all_cookies = all_cookies @ concat exported"
  by (induction exported arbitrary: all_cookies) (simp_all add: extend_if_eq)

lemma main_cookies_eq:
  "main_cookies sys exported safari_cookies firefox_cookies
     = concat exported @ (if sys = Darwin then safari_cookies else []) @ firefox_cookies"
  by (simp add: main_cookies_def collect_chromium_eq extend_if_eq)

lemma chromium_rows_tag:
  "\<forall>c \<in> set cookies. browser c = nm
     \<Longrightarrow> \<forall>c \<in> set (chromium_rows L T sys nm key rows cookies). browser c = nm"
proof (induction rows arbitrary: cookies)
  case Nil
  then show ?case by simp
next
  case (Cons row rows)
  show ?case
  proof (cases "chromium_cookie L T sys nm key row")
    case (Inl e)
    then show ?thesis using Cons.prems by simp
  next
    case (Inr c)
    then have "browser c = nm"
      by (auto simp add: chromium_cookie_def split: prod.splits sum.splits)
    then have pre: "\<forall>c' \<in> set (cookies @ [c]). browser c' = nm"
      using Cons.prems by simp
    show ?thesis
      using Inr Cons.IH [OF pre] by simp
  qed
qed

lemma chromium_tag:
  "\<forall>c \<in> set (export_chromium_cookies L T sys nm exists key rows). browser c = nm"
proof (cases rows)
  case None
  then show ?thesis by (simp add: export_chromium_cookies_def)
next
  case (Some rs)
  have "\<forall>c \<in> set (chromium_rows L T sys nm key rs []). browser c = nm"
    by (rule chromium_rows_tag) simp
  then show ?thesis
    using Some by (simp add: export_chromium_cookies_def)
qed

lemma parse_records_tag:
  "\<forall>c \<in> set cookies. browser c = str_of ''Safari''
     \<Longrightarrow> \<forall>c \<in> set (parse_records T data offsets cookies). browser c = str_of ''Safari''"
proof (induction offsets arbitrary: cookies)
  case Nil
  then show ?case by simp
next
  case (Cons off offsets)
  show ?case
  proof (cases "parse_record T data off")
    case (Inl e)
    then show ?thesis using Cons by simp
  next
    case (Inr c)
    then have "browser c = str_of ''Safari''"
      by (auto simp add: parse_record_def Let_def split: sum.splits)
    then have pre: "\<forall>c' \<in> set (cookies @ [c]). browser c' = str_of ''Safari''"
      using Cons.prems by simp
    show ?thesis
      using Inr Cons.IH [OF pre] by simp
  qed
qed

lemma page_tag:
  "parse_safari_page T data = Inr cs \<Longrightarrow> \<forall>c \<in> set cs. browser c = str_of ''Safari''"
proof -
  assume parsed: "parse_safari_page T data = Inr cs"
  have "\<forall>c \<in> set (parse_records T data offsets []). browser c = str_of ''Safari''" for offsets
    by (rule parse_records_tag) simp
  then show ?thesis
    using parsed by (auto simp add: parse_safari_page_def split: if_splits sum.splits)
qed

lemma read_pages_tag:
  "\<forall>c \<in> set cookies. browser c = str_of ''Safari''
     \<Longrightarrow> \<forall>c \<in> set (read_pages T rest sizes cookies). browser c = str_of ''Safari''"
proof (induction sizes arbitrary: rest cookies)
  case Nil
  then show ?case by simp
next
  case (Cons n sizes)
  show ?case
  proof (cases "parse_safari_page T (take n rest)")
    case (Inl e)
    then show ?thesis using Cons.prems by simp
  next
    case (Inr cs)
    then have pre: "\<forall>c \<in> set (cookies @ cs). browser c = str_of ''Safari''"
      using Cons.prems page_tag [OF Inr] by auto
    show ?thesis
      using Inr Cons.IH [OF pre] by simp
  qed
qed

lemma safari_tag:
  "\<forall>c \<in> set (export_safari_cookies T sys file). browser c = str_of ''Safari''"
proof -
  have "\<forall>c \<in> set (read_pages T rest sizes []). browser c = str_of ''Safari''" for rest sizes
    by (rule read_pages_tag) simp
  then show ?thesis
    by (auto simp add: export_safari_cookies_def split: option.splits sum.splits)
qed

lemma firefox_rows_tag:
  "\<forall>c \<in> set cookies. browser c = str_of ''Firefox''
     \<Longrightarrow> \<forall>c \<in> set (firefox_rows T rows cookies). browser c = str_of ''Firefox''"
proof (induction rows arbitrary: cookies)
  case Nil
  then show ?case by simp
next
  case (Cons row rows)
  show ?case
  proof (cases "firefox_cookie T row")
    case (Inl e)
    then show ?thesis using Cons.prems by simp
  next
    case (Inr c)
    then have "browser c = str_of ''Firefox''"
      by (auto simp add: firefox_cookie_def split: prod.splits sum.splits)
    then have pre: "\<forall>c' \<in> set (cookies @ [c]). browser c' = str_of ''Firefox''"
      using Cons.prems by simp
    show ?thesis
      using Inr Cons.IH [OF pre] by simp
  qed
qed

lemma firefox_tag:
  "\<forall>c \<in> set cookies. browser c = str_of ''Firefox''
     \<Longrightarrow> \<forall>c \<in> set (export_firefox_cookies T profiles cookies). browser c = str_of ''Firefox''"
proof (induction profiles arbitrary: cookies)
  case Nil
  then show ?case by simp
next
  case (Cons p profiles)
  show ?case
  proof (cases p)
    case None
    then show ?thesis using Cons by simp
  next
    case (Some rows)
    have "\<forall>c \<in> set (firefox_rows T rows cookies). browser c = str_of ''Firefox''"
      using Cons.prems by (rule firefox_rows_tag)
    then show ?thesis
      using Some Cons.IH by simp
  qed
qed

lemma safari_off_darwin: "sys \<noteq> Darwin \<Longrightarrow> export_safari_cookies T sys file = []"
  by (simp add: export_safari_cookies_def)

text \<open>
  Claim C8. The list \<open>main\<close> hands to the writer is what the exporter returned for each
  discovered browser, in the order of discovery, then what the exporter of the paged
  container returned (nothing off Darwin), then what the exporter of the third store
  returned: a concatenation, from which no record is removed and in which none is
  changed. Every record of a source carries the tag of that source: the name of the
  browser, \<open>Safari\<close>, \<open>Firefox\<close>. The witness has the same domain, name and path from all
  three sources, and keeps the three records.
\<close>

theorem aggregation_order:
  "main_cookies sys (map (run_chromium L T sys) browsers)
       (export_safari_cookies T sys safari_file) (export_firefox_cookies T profiles [])
     = concat (map (run_chromium L T sys) browsers)
         @ export_safari_cookies T sys safari_file
         @ export_firefox_cookies T profiles []
   \<and> (\<forall>b \<in> set browsers. \<forall>c \<in> set (run_chromium L T sys b). browser c = fst b)
   \<and> (\<forall>c \<in> set (export_safari_cookies T sys safari_file). browser c = str_of ''Safari'')
   \<and> (\<forall>c \<in> set (export_firefox_cookies T profiles []). browser c = str_of ''Firefox'')"
proof (intro conjI)
  show "main_cookies sys (map (run_chromium L T sys) browsers)
       (export_safari_cookies T sys safari_file) (export_firefox_cookies T profiles [])
     = concat (map (run_chromium L T sys) browsers)
         @ export_safari_cookies T sys safari_file
         @ export_firefox_cookies T profiles []"
    by (cases "sys = Darwin") (simp_all add: main_cookies_eq safari_off_darwin)
  show "\<forall>b \<in> set browsers. \<forall>c \<in> set (run_chromium L T sys b). browser c = fst b"
    using chromium_tag by (auto simp add: run_chromium_def split: prod.splits)
  show "\<forall>c \<in> set (export_safari_cookies T sys safari_file). browser c = str_of ''Safari''"
    by (rule safari_tag)
  show "\<forall>c \<in> set (export_firefox_cookies T profiles []). browser c = str_of ''Firefox''"
    by (rule firefox_tag) simp
qed


theorem aggregation_order_witness:
  "main_cookies Darwin
     (map (run_chromium demo_lib demo_clock Darwin)
        [(str_of ''Chrome'', True, Some [1, 2, 3, 4, 5, 6, 7, 8, 9, 10, 11, 12, 13, 14, 15, 16],
          Some [(bytes_of ''.a.io'', bytes_of ''sid'', Some (bytes_of ''plain''), bytes_of ''/'',
                 Some 0, 1, 0, None)])])
     (export_safari_cookies demo_clock Darwin
        (Some (bytes_of ''cook'' @ [0, 0, 0, 1] @ [0, 0, 0, 87] @ page_one)))
     (export_firefox_cookies demo_clock
        [Some [(str_of ''.a.io'', str_of ''sid'', str_of ''x'', str_of ''/'', None, 0, 0,
                Some 0)]] [])
   = [\<lparr>browser = str_of ''Chrome'', domain = str_of ''.a.io'', name = str_of ''sid'',
        val = str_of ''plain'', path = str_of ''/'', expires = str_of ''Session'',
        secure = True, httponly = False, samesite = Some 0\<rparr>,
      \<lparr>browser = str_of ''Safari'', domain = str_of ''.a.io'', name = str_of ''sid'',
        val = str_of ''v1'', path = str_of ''/'', expires = str_of ''2023-03-08 20:26:40'',
        secure = True, httponly = True, samesite = Some 0\<rparr>,
      \<lparr>browser = str_of ''Firefox'', domain = str_of ''.a.io'', name = str_of ''sid'',
        val = str_of ''x'', path = str_of ''/'', expires = str_of ''Session'',
        secure = False, httponly = False, samesite = Some 0\<rparr>]"
proof -
  let ?key = "Some [1, 2, 3, 4, 5, 6, 7, 8, 9, 10, 11, 12, 13, 14, 15, 16 :: byte]"
  let ?row = "(bytes_of ''.a.io'', bytes_of ''sid'', Some (bytes_of ''plain''), bytes_of ''/'',
                 Some 0, 1, 0, None) :: chromium_row"
  let ?c = "\<lparr>browser = str_of ''Chrome'', domain = str_of ''.a.io'', name = str_of ''sid'',
          val = str_of ''plain'', path = str_of ''/'', expires = str_of ''Session'',
          secure = True, httponly = False, samesite = Some 0\<rparr>"
  have dec: "decrypt_cookie_value demo_lib Darwin (Some (bytes_of ''plain'')) ?key
      = Inr (str_of ''plain'')"
    by (simp add: decrypt_cookie_value_def decrypt_body_def decrypt_plain_def slice_simps
        bytes_of_def str_of_def demo_lib_def)
  have texts: "utf8_replace (bytes_of ''.a.io'') = str_of ''.a.io''"
    "utf8_replace (bytes_of ''sid'') = str_of ''sid''"
    "utf8_replace (bytes_of ''/'') = str_of ''/''"
    by (simp_all add: bytes_of_def str_of_def)
  have "chromium_cookie demo_lib demo_clock Darwin (str_of ''Chrome'') ?key ?row = Inr ?c"
    unfolding chromium_cookie_def prod.case dec sum.case texts
    by (simp add: chrome_timestamp_to_datetime_def)
  then have "chromium_rows demo_lib demo_clock Darwin (str_of ''Chrome'') ?key [?row] [] = [?c]"
    by (simp only: chromium_rows.simps sum.case append.simps)
  then have chrome: "run_chromium demo_lib demo_clock Darwin (str_of ''Chrome'', True, ?key, Some [?row])
      = [?c]"
    by (simp add: run_chromium_def export_chromium_cookies_def)
  have page: "parse_safari_page demo_clock page_one
      = Inr [\<lparr>browser = str_of ''Safari'', domain = str_of ''.a.io'', name = str_of ''sid'',
          val = str_of ''v1'', path = str_of ''/'', expires = str_of ''2023-03-08 20:26:40'',
          secure = True, httponly = True, samesite = Some 0\<rparr>]"
    by (simp add: page_one_def record_a_def run_page)
  have "length page_one = 87"
    by (simp add: page_one_def record_a_def bytes_of_def)
  then have safari: "export_safari_cookies demo_clock Darwin
        (Some (bytes_of ''cook'' @ [0, 0, 0, 1] @ [0, 0, 0, 87] @ page_one))
      = [\<lparr>browser = str_of ''Safari'', domain = str_of ''.a.io'', name = str_of ''sid'',
          val = str_of ''v1'', path = str_of ''/'', expires = str_of ''2023-03-08 20:26:40'',
          secure = True, httponly = True, samesite = Some 0\<rparr>]"
    using page
    by (simp add: export_safari_cookies_def unpack_I_be_def le_nat_def bytes_of_def)
  have firefox: "export_firefox_cookies demo_clock
        [Some [(str_of ''.a.io'', str_of ''sid'', str_of ''x'', str_of ''/'', None, 0, 0,
                Some 0)]] []
      = [\<lparr>browser = str_of ''Firefox'', domain = str_of ''.a.io'', name = str_of ''sid'',
          val = str_of ''x'', path = str_of ''/'', expires = str_of ''Session'',
          secure = False, httponly = False, samesite = Some 0\<rparr>]"
    by (simp add: firefox_cookie_def firefox_expiry_def)
  have "main_cookies Darwin
     (map (run_chromium demo_lib demo_clock Darwin) [(str_of ''Chrome'', True, ?key, Some [?row])])
     (export_safari_cookies demo_clock Darwin
        (Some (bytes_of ''cook'' @ [0, 0, 0, 1] @ [0, 0, 0, 87] @ page_one)))
     (export_firefox_cookies demo_clock
        [Some [(str_of ''.a.io'', str_of ''sid'', str_of ''x'', str_of ''/'', None, 0, 0,
                Some 0)]] [])
   = concat (map (run_chromium demo_lib demo_clock Darwin)
               [(str_of ''Chrome'', True, ?key, Some [?row])])
       @ export_safari_cookies demo_clock Darwin
          (Some (bytes_of ''cook'' @ [0, 0, 0, 1] @ [0, 0, 0, 87] @ page_one))
       @ export_firefox_cookies demo_clock
          [Some [(str_of ''.a.io'', str_of ''sid'', str_of ''x'', str_of ''/'', None, 0, 0,
                Some 0)]] []"
    using aggregation_order [where L = demo_lib and T = demo_clock and sys = Darwin
        and browsers = "[(str_of ''Chrome'', True, ?key, Some [?row])]"
        and safari_file = "Some (bytes_of ''cook'' @ [0, 0, 0, 1] @ [0, 0, 0, 87] @ page_one)"
        and profiles = "[Some [(str_of ''.a.io'', str_of ''sid'', str_of ''x'', str_of ''/'',
                None, 0, 0, Some 0)]]"]
    by (rule conjunct1)
  then show ?thesis
    unfolding list.map chrome safari firefox by simp
qed


section \<open>Properties of the timestamps\<close>

subsection \<open>The calendar and the printed form\<close>

lemma year_bound_aux:
  "400 * q \<le> q * 400 + 1 + a + b + c - (1::nat)" "400 * q \<le> q * 400 + 1 + a + b + (c::nat)"
  by simp_all

lemma ord2ymd_year: "400 * ((n - 1) div 146097) \<le> fst (ord2ymd n)"
  apply (simp only: ord2ymd_def Let_def if_distrib [of fst] fst_conv if_cancel)
  apply (split if_split)
  apply (intro conjI impI)
   apply (rule year_bound_aux(1))
  apply (rule year_bound_aux(2))
  done

lemma mask_digit: "mask (48 + n mod 10) = 57"
proof -
  have "n mod 10 < 10" by simp
  then show ?thesis
    unfolding mask_def by presburger
qed

lemma mask_other: "mask 45 = 45" "mask 32 = 32" "mask 58 = 58"
  by (simp_all add: mask_def)

lemma strftime_shape: "1000 \<le> y \<Longrightarrow> iso_shape (strftime T (y, m, d, H, M, S))"
  by (simp add: strftime_def iso_shape_def four_digits_def two_digits_def str_of_def
      mask_digit mask_other)

lemma epochs:
  "ymd2ord 1601 (Suc 0) (Suc 0) = 584389" "ymd2ord 2001 (Suc 0) (Suc 0) = 730486"
  "ymd2ord 1970 (Suc 0) (Suc 0) = 719163"
  by (simp_all add: ymd2ord_def days_before_year_def days_before_month_def is_leap_def)

lemma datetime_add_eq:
  "datetime_add y0 m0 d0 delta =
     (let ordinal = int (ymd2ord y0 m0 d0) + delta div 86400000000;
          s = nat ((delta mod 86400000000) div 1000000)
      in if ordinal < 1 \<or> 3652059 < ordinal then Inl OverflowError
         else Inr (fst (ord2ymd (nat ordinal)), fst (snd (ord2ymd (nat ordinal))),
                   snd (snd (ord2ymd (nat ordinal))), s div 3600, (s mod 3600) div 60, s mod 60))"
  by (simp add: datetime_add_def us_per_day_def max_ordinal_def Let_def split: prod.split)

lemma datetime_add_shape:
  assumes "datetime_add y0 m0 d0 delta = Inr dt" and "0 \<le> delta"
    and "584389 \<le> ymd2ord y0 m0 d0"
  shows "iso_shape (strftime T dt)"
proof -
  let ?n = "nat (int (ymd2ord y0 m0 d0) + delta div 86400000000)"
  have "0 \<le> delta div 86400000000"
    using assms(2) by (simp add: pos_imp_zdiv_nonneg_iff)
  then have "584389 \<le> ?n"
    using assms(3) by linarith
  then have "4 \<le> (?n - 1) div 146097"
    by linarith
  then have "1000 \<le> fst (ord2ymd ?n)"
    using ord2ymd_year [of ?n] by linarith
  moreover obtain m d H M S where "dt = (fst (ord2ymd ?n), m, d, H, M, S)"
    using assms(1) by (auto simp add: datetime_add_eq Let_def split: if_splits)
  ultimately show ?thesis
    by (simp add: strftime_shape)
qed

lemma strftime_long: "15 \<le> length (strftime T dt)"
proof -
  obtain y m d H M S where "dt = (y, m, d, H, M, S)"
    by (metis prod_cases6)
  then show ?thesis
    by (simp add: strftime_def two_digits_def str_of_def)
qed

lemma strftime_not_unknown: "strftime T dt \<noteq> str_of ''Unknown''"
  using strftime_long [of T dt] by (auto simp add: str_of_def)

lemma chrome_zero: "chrome_timestamp_to_datetime T (Some 0) = str_of ''Session''"
  by (simp add: chrome_timestamp_to_datetime_def)

lemma chrome_absent: "chrome_timestamp_to_datetime T None = str_of ''Unknown''"
  by (simp add: chrome_timestamp_to_datetime_def)

lemma chrome_overflow:
  assumes "ts \<noteq> 0"
    and "584389 + ts div 86400000000 < 1 \<or> 3652059 < 584389 + ts div 86400000000"
  shows "chrome_timestamp_to_datetime T (Some ts) = str_of ''Unknown''"
  using assms
  by (auto simp add: chrome_timestamp_to_datetime_def timedelta_us_def us_per_day_def
      datetime_add_eq epochs Let_def)

lemma chrome_in_range:
  assumes "ts \<noteq> 0"
    and "1 \<le> 584389 + ts div 86400000000" and "584389 + ts div 86400000000 \<le> 3652059"
  shows "chrome_timestamp_to_datetime T (Some ts)
           = (case datetime_add 1601 1 1 ts of Inl e \<Rightarrow> [] | Inr dt \<Rightarrow> strftime T dt)
       \<and> (\<exists>dt. datetime_add 1601 1 1 ts = Inr dt)"
  using assms
  by (auto simp add: chrome_timestamp_to_datetime_def timedelta_us_def us_per_day_def
      datetime_add_eq epochs Let_def)

lemma chrome_shape:
  assumes "0 < ts" and "584389 + ts div 86400000000 \<le> 3652059"
  shows "iso_shape (chrome_timestamp_to_datetime T (Some ts))"
proof -
  have "0 \<le> ts div 86400000000"
    using assms(1) by (simp add: pos_imp_zdiv_nonneg_iff)
  then obtain dt where dt: "datetime_add 1601 1 1 ts = Inr dt"
    and "chrome_timestamp_to_datetime T (Some ts) = strftime T dt"
    using chrome_in_range [of ts T] assms by auto
  then show ?thesis
    using datetime_add_shape [OF dt] assms(1) by (simp add: epochs)
qed

lemma chrome_no_zone:
  "chrome_timestamp_to_datetime (T\<lparr>local_text := f\<rparr>) ts = chrome_timestamp_to_datetime T ts"
  by (simp add: chrome_timestamp_to_datetime_def strftime_def split: option.splits sum.splits prod.splits)

subsection \<open>The other two stores\<close>

lemma safari_session: "\<not> float_gt_zero exp \<Longrightarrow> safari_expiry T exp = Inr (str_of ''Session'')"
  by (simp add: safari_expiry_def)

lemma mac_epoch_shape:
  assumes "mac_epoch_text T exp = Inr s"
  shows "iso_shape s"
proof -
  obtain delta dt where delta: "timedelta_seconds exp = Inr delta"
    and dt: "datetime_add 2001 1 1 delta = Inr dt" and s: "s = strftime T dt"
    using assms by (auto simp add: mac_epoch_text_def split: sum.splits)
  have "0 \<le> delta"
    using delta by (auto simp add: timedelta_seconds_def timedelta_us_def split: if_splits)
  then show ?thesis
    using datetime_add_shape [OF dt] s by (simp add: epochs)
qed

lemma safari_shape:
  "float_gt_zero exp \<Longrightarrow> safari_expiry T exp = Inr s \<Longrightarrow> iso_shape s"
  by (simp add: safari_expiry_def mac_epoch_shape)

lemma safari_not_unknown: "safari_expiry T exp \<noteq> Inr (str_of ''Unknown'')"
proof
  assume a: "safari_expiry T exp = Inr (str_of ''Unknown'')"
  show False
  proof (cases "float_gt_zero exp")
    case True
    then have "mac_epoch_text T exp = Inr (str_of ''Unknown'')"
      using a by (simp add: safari_expiry_def)
    then show False
      by (auto simp add: mac_epoch_text_def strftime_not_unknown split: sum.splits)
  next
    case False
    then show False
      using a by (simp add: safari_expiry_def str_of_def)
  qed
qed

lemma safari_infinite:
  "float_gt_zero exp \<Longrightarrow> float_is_inf exp \<Longrightarrow> safari_expiry T exp = Inl OverflowError"
  by (simp add: safari_expiry_def mac_epoch_text_def timedelta_seconds_def)

lemma safari_no_zone: "safari_expiry (T\<lparr>local_text := f\<rparr>) exp = safari_expiry T exp"
  by (simp add: safari_expiry_def mac_epoch_text_def strftime_def
      split: sum.splits prod.splits)

lemma firefox_session:
  "firefox_expiry T None = Inr (str_of ''Session'')"
  "firefox_expiry T (Some 0) = Inr (str_of ''Session'')"
  by (simp_all add: firefox_expiry_def)

lemma firefox_raises:
  "t \<noteq> 0 \<Longrightarrow> t < - 62135683200 \<or> 253402387200 \<le> t \<or> local_text T t = None
     \<Longrightarrow> firefox_expiry T (Some t) = Inl OverflowError"
  by (auto simp add: firefox_expiry_def fromtimestamp_text_def)

lemma firefox_local:
  "t \<noteq> 0 \<Longrightarrow> - 62135683200 \<le> t \<Longrightarrow> t < 253402387200 \<Longrightarrow> local_text T t = Some s
     \<Longrightarrow> firefox_expiry T (Some t) = Inr s"
  by (simp add: firefox_expiry_def fromtimestamp_text_def)

lemma expiry_raised_skips:
  assumes "safari_expiry T (of_nat (le_nat (take 8 (drop 40 (drop off data))))) = Inl e"
  shows "record_or_none T data off = None"
proof (cases "parse_record T data off")
  case (Inl e')
  then show ?thesis
    by (simp add: record_or_none_def)
next
  case (Inr c)
  then show ?thesis
    using parse_record_Inr [OF Inr] assms by simp
qed

lemma firefox_raised_ends:
  assumes "firefox_expiry T expiry = Inl e"
  shows "firefox_rows T ((host, nm, v, p, expiry, sec, ho, ss) # rows) cookies = cookies"
  using assms by (simp add: firefox_cookie_def)

subsection \<open>The three conventions\<close>

text \<open>
  Claim C7, as the code has it. Microseconds since 1601-01-01
  (\<open>chrome_timestamp_to_datetime\<close>): 0 gives \<open>"Session"\<close>; an absent value gives
  \<open>"Unknown"\<close>, and so does every value whose day, 584389 plus the whole days of the
  value, lies outside 1 to 3652059, the days of the years 1 to 9999; every other value
  gives the printed sum of 1601-01-01 and the value, whatever the local time zone, of the
  form \<open>YYYY-MM-DD HH:MM:SS\<close> when the value is above 0. Seconds since 2001-01-01 as a
  double (the paged container): a value not above zero gives \<open>"Session"\<close>; a value above
  zero is converted, whatever the local time zone, to a text of the form
  \<open>YYYY-MM-DD HH:MM:SS\<close>, or the conversion raises, as it does for infinity, and then
  the record is skipped; the text is never \<open>"Unknown"\<close>. Whole seconds since 1970-01-01
  (the third store): 0 or an absent value gives \<open>"Session"\<close>; any other value gives what
  the local clock prints, or the conversion raises, and then the profile ends with the
  rows before that one.
\<close>

theorem timestamp_conventions:
  "chrome_timestamp_to_datetime T (Some 0) = str_of ''Session''
   \<and> chrome_timestamp_to_datetime T None = str_of ''Unknown''
   \<and> (ts \<noteq> 0 \<and> (584389 + ts div 86400000000 < 1 \<or> 3652059 < 584389 + ts div 86400000000)
        \<longrightarrow> chrome_timestamp_to_datetime T (Some ts) = str_of ''Unknown'')
   \<and> (ts \<noteq> 0 \<and> 1 \<le> 584389 + ts div 86400000000 \<and> 584389 + ts div 86400000000 \<le> 3652059
        \<longrightarrow> (\<exists>dt. datetime_add 1601 1 1 ts = Inr dt
                  \<and> chrome_timestamp_to_datetime T (Some ts) = strftime T dt))
   \<and> (0 < ts \<and> 584389 + ts div 86400000000 \<le> 3652059
        \<longrightarrow> iso_shape (chrome_timestamp_to_datetime T (Some ts)))
   \<and> chrome_timestamp_to_datetime (T\<lparr>local_text := f\<rparr>) (Some ts)
        = chrome_timestamp_to_datetime T (Some ts)
   \<and> (\<not> float_gt_zero exp \<longrightarrow> safari_expiry T exp = Inr (str_of ''Session''))
   \<and> (float_gt_zero exp \<longrightarrow> safari_expiry T exp = mac_epoch_text T exp)
   \<and> (float_gt_zero exp \<longrightarrow> (\<forall>s. safari_expiry T exp = Inr s \<longrightarrow> iso_shape s))
   \<and> (float_gt_zero exp \<and> float_is_inf exp \<longrightarrow> safari_expiry T exp = Inl OverflowError)
   \<and> safari_expiry T exp \<noteq> Inr (str_of ''Unknown'')
   \<and> safari_expiry (T\<lparr>local_text := f\<rparr>) exp = safari_expiry T exp
   \<and> firefox_expiry T None = Inr (str_of ''Session'')
   \<and> firefox_expiry T (Some 0) = Inr (str_of ''Session'')
   \<and> (t \<noteq> 0 \<and> (t < - 62135683200 \<or> 253402387200 \<le> t \<or> local_text T t = None)
        \<longrightarrow> firefox_expiry T (Some t) = Inl OverflowError)
   \<and> (t \<noteq> 0 \<and> - 62135683200 \<le> t \<and> t < 253402387200 \<and> local_text T t = Some s'
        \<longrightarrow> firefox_expiry T (Some t) = Inr s')
   \<and> (safari_expiry T (of_nat (le_nat (take 8 (drop 40 (drop off data))))) = Inl e
        \<longrightarrow> record_or_none T data off = None)
   \<and> (firefox_expiry T expiry = Inl e
        \<longrightarrow> firefox_rows T ((host, nm, v, p, expiry, sec, ho, ss) # rows) cookies = cookies)"
proof (intro conjI impI allI)
  show "chrome_timestamp_to_datetime T (Some 0) = str_of ''Session''"
    by (rule chrome_zero)
  show "chrome_timestamp_to_datetime T None = str_of ''Unknown''"
    by (rule chrome_absent)
  show "chrome_timestamp_to_datetime T (Some ts) = str_of ''Unknown''"
    if "ts \<noteq> 0 \<and> (584389 + ts div 86400000000 < 1 \<or> 3652059 < 584389 + ts div 86400000000)"
    using that by (intro chrome_overflow) simp_all
  show "\<exists>dt. datetime_add 1601 1 1 ts = Inr dt
          \<and> chrome_timestamp_to_datetime T (Some ts) = strftime T dt"
    if "ts \<noteq> 0 \<and> 1 \<le> 584389 + ts div 86400000000 \<and> 584389 + ts div 86400000000 \<le> 3652059"
    using chrome_in_range [of ts T] that by auto
  show "iso_shape (chrome_timestamp_to_datetime T (Some ts))"
    if "0 < ts \<and> 584389 + ts div 86400000000 \<le> 3652059"
    using that by (intro chrome_shape) simp_all
  show "chrome_timestamp_to_datetime (T\<lparr>local_text := f\<rparr>) (Some ts)
        = chrome_timestamp_to_datetime T (Some ts)"
    by (rule chrome_no_zone)
  show "safari_expiry T exp = Inr (str_of ''Session'')" if "\<not> float_gt_zero exp"
    using that by (rule safari_session)
  show "safari_expiry T exp = mac_epoch_text T exp" if "float_gt_zero exp"
    using that by (simp add: safari_expiry_def)
  show "iso_shape s" if "float_gt_zero exp" and "safari_expiry T exp = Inr s" for s
    using that by (rule safari_shape)
  show "safari_expiry T exp = Inl OverflowError" if "float_gt_zero exp \<and> float_is_inf exp"
    using that by (intro safari_infinite) simp_all
  show "safari_expiry T exp \<noteq> Inr (str_of ''Unknown'')"
    by (rule safari_not_unknown)
  show "safari_expiry (T\<lparr>local_text := f\<rparr>) exp = safari_expiry T exp"
    by (rule safari_no_zone)
  show "firefox_expiry T None = Inr (str_of ''Session'')"
    "firefox_expiry T (Some 0) = Inr (str_of ''Session'')"
    by (rule firefox_session)+
  show "firefox_expiry T (Some t) = Inl OverflowError"
    if "t \<noteq> 0 \<and> (t < - 62135683200 \<or> 253402387200 \<le> t \<or> local_text T t = None)"
    using that by (intro firefox_raises) simp_all
  show "firefox_expiry T (Some t) = Inr s'"
    if "t \<noteq> 0 \<and> - 62135683200 \<le> t \<and> t < 253402387200 \<and> local_text T t = Some s'"
    using that by (intro firefox_local) simp_all
  show "record_or_none T data off = None"
    if "safari_expiry T (of_nat (le_nat (take 8 (drop 40 (drop off data))))) = Inl e"
    using that by (rule expiry_raised_skips)
  show "firefox_rows T ((host, nm, v, p, expiry, sec, ho, ss) # rows) cookies = cookies"
    if "firefox_expiry T expiry = Inl e"
    using that by (rule firefox_raised_ends)
qed

(*THMS*)

end
